theory Spec2Isabelle
  imports Complex_Main "HOL-Library.AList" "HOL-Library.Word"
begin

section \<open>PyImpact: contact-sound synthesis from physics telemetry\<close>

text \<open>
  A shallow embedding of \<^verbatim>\<open>Python/tdw/add_ons/py_impact.py\<close> (class \<^verbatim>\<open>PyImpact\<close>).

  Conventions of the embedding.
  \<^item> Python floats and numpy arrays of floats are real numbers and lists of real numbers;
    rounding and the non-finite values \<^verbatim>\<open>nan\<close> and \<^verbatim>\<open>inf\<close> are not represented.
  \<^item> A \<^verbatim>\<open>dict\<close> whose iteration order the code uses is an association list with distinct
    keys in insertion order (\<open>AList.update\<close> replaces in place or appends, as a Python dict
    does); a \<^verbatim>\<open>dict\<close> that is only indexed is a map.
  \<^item> Every exception the code can raise is a value \<open>Inl e\<close> of the result.
  \<^item> The process-wide generator behind \<^verbatim>\<open>np.random.normal\<close>, which a seed determines, is
    the list of standard normal variates it will return next, a field of the engine state.
    \<^verbatim>\<open>os.urandom\<close>, which no seed determines, is the list of bytes that the operating
    system will return next: an argument and a result of every operation that reads it.
    Running out of either list is the error \<open>Exhausted\<close>, which also stands for a rejection
    loop that never ends.
  \<^item> \<^verbatim>\<open>on_send\<close> returns the commands that it appends to \<^verbatim>\<open>self.commands\<close>, in their order.
  \<^item> Code outside the file (the \<^verbatim>\<open>CollisionAudioEvent\<close> constructor, \<^verbatim>\<open>Modes.sum_modes\<close>,
    \<^verbatim>\<open>Base64Sound\<close>, pydub, scipy, numpy interpolation, base64, the object catalog read from
    \<^verbatim>\<open>objects.csv\<close>) is a field of the record \<open>ext\<close> that every operation receives.
\<close>

subsection \<open>Data model\<close>

datatype error = KeyError | IndexError | ValueError | ZeroDivisionError | AssertionError | Exhausted

datatype AudioMaterial =
  ceramic | wood_hard | wood_medium | wood_soft | metal | glass | paper | cardboard
  | leather | fabric | plastic_hard | plastic_soft_foam | rubber | stone

datatype CollisionAudioType = impact | scrape | roll | none

type_synonym vec3 = "real \<times> real \<times> real"

text \<open>\<^verbatim>\<open>ObjectAudioStatic\<close>; the field \<^verbatim>\<open>size\<close> is \<open>size_bucket\<close> (\<open>size\<close> is a HOL constant).\<close>

record ObjectAudioStatic =
  name :: string
  object_id :: int
  amp :: real
  mass :: real
  material :: AudioMaterial
  bounciness :: real
  resonance :: real
  size_bucket :: int

record Rigidbody =
  velocity :: vec3
  angular_velocity :: vec3
  sleeping :: bool

text \<open>
  The telemetry records \<^verbatim>\<open>Collision\<close> and \<^verbatim>\<open>EnvironmentCollision\<close>, and their wrappers
  \<^verbatim>\<open>CollisionObjObj\<close> and \<^verbatim>\<open>CollisionObjEnv\<close>, whose \<^verbatim>\<open>points\<close> and \<^verbatim>\<open>normals\<close> the engine reads.
\<close>

record Collision =
  collider_id :: int
  collidee_id :: int
  coll_state :: string
  coll_points :: "vec3 list"
  coll_normals :: "vec3 list"
  relative_velocity :: vec3

record EnvironmentCollision =
  env_object_id :: int
  env_state :: string
  env_points :: "vec3 list"
  env_normals :: "vec3 list"
  env_floor :: bool

datatype CollisionData = CollisionObjObj Collision | CollisionObjEnv EnvironmentCollision

fun points :: "CollisionData \<Rightarrow> vec3 list" where
  "points (CollisionObjObj c) = coll_points c"
| "points (CollisionObjEnv c) = env_points c"

fun normals :: "CollisionData \<Rightarrow> vec3 list" where
  "normals (CollisionObjObj c) = coll_normals c"
| "normals (CollisionObjEnv c) = env_normals c"

text \<open>\<^verbatim>\<open>CollisionAudioEvent\<close>: the fields the engine reads (\<open>ev_velocity\<close> is its \<^verbatim>\<open>velocity\<close>).\<close>

record CollisionAudioEvent =
  primary_id :: int
  secondary_id :: "int option"
  collision_type :: CollisionAudioType
  ev_velocity :: vec3
  magnitude :: real
  area :: real
  collision :: CollisionData

text \<open>One element of \<^verbatim>\<open>resp\<close>, by its four-letter type id.\<close>

datatype OutputData =
  Rigi "(int \<times> Rigidbody) list"
  | Rojv "(int \<times> Rigidbody) list"
  | Coll Collision
  | Enco EnvironmentCollision
  | Segm "(int \<times> string \<times> string) list"
  | Srob "(int \<times> string \<times> real) list"
  | Srig "(int \<times> real \<times> real) list"
  | OtherData

text \<open>\<^verbatim>\<open>Modes\<close>: three parallel arrays; decay times are in milliseconds.\<close>

record Modes =
  frequencies :: "real list"
  powers :: "real list"
  decay_times :: "real list"

text \<open>
  \<^verbatim>\<open>CollisionAudioInfo(obj1_modes, obj2_modes, amp)\<close>; its \<^verbatim>\<open>amp\<close> is \<open>info_amp\<close> and its
  \<^verbatim>\<open>count\<close> is \<open>info_count\<close>. A new one has \<^verbatim>\<open>init_speed = 1\<close> and \<^verbatim>\<open>count = 0\<close>, and
  \<^verbatim>\<open>count_collisions\<close> adds one to \<^verbatim>\<open>count\<close>.
\<close>

record CollisionAudioInfo =
  obj1_modes :: Modes
  obj2_modes :: Modes
  info_amp :: real
  init_speed :: real
  info_count :: nat

definition new_CollisionAudioInfo :: "Modes \<Rightarrow> Modes \<Rightarrow> real \<Rightarrow> CollisionAudioInfo" where
  "new_CollisionAudioInfo m1 m2 a =
     \<lparr>obj1_modes = m1, obj2_modes = m2, info_amp = a, init_speed = 1, info_count = 0\<rparr>"

definition count_collisions :: "CollisionAudioInfo \<Rightarrow> CollisionAudioInfo" where
  "count_collisions i = i\<lparr>info_count := info_count i + 1\<rparr>"

text \<open>One entry of \<^verbatim>\<open>material_data\<close>: the arrays \<^verbatim>\<open>cf\<close>, \<^verbatim>\<open>op\<close> and \<^verbatim>\<open>rt\<close> of a material and size.\<close>

record ModeDistribution =
  cf :: "real list"
  op :: "real list"
  rt :: "real list"

text \<open>An entry of \<^verbatim>\<open>mode_properties_log\<close>, written by \<^verbatim>\<open>log_modes\<close>.\<close>

record ModeProps =
  modes_count :: nat
  other_id :: int
  target_id :: "int option"
  props_amp :: real
  other_material :: string
  target_material :: string
  modes_1_log :: Modes
  modes_2_log :: Modes

text \<open>A \<^verbatim>\<open>play_audio_data\<close> or \<^verbatim>\<open>play_point_source_data\<close> command.\<close>

record Command =
  cmd_type :: string
  cmd_id :: nat
  position :: vec3
  num_frames :: nat
  num_channels :: nat
  frame_rate :: nat
  wav_data :: string
  y_pos_offset :: real

text \<open>\<^verbatim>\<open>Base64Sound\<close>: the encoded bytes, their base64 string and their number.\<close>

record Base64Sound =
  snd_bytes :: "8 word list"
  wav_str :: string
  snd_length :: nat

type_synonym scrape_key = "int \<times> int option"

text \<open>
  The engine: the attributes of a \<^verbatim>\<open>PyImpact\<close> object, \<^verbatim>\<open>initialized\<close> of the \<^verbatim>\<open>AddOn\<close> it
  extends, and the generator of normal variates. \<open>'seg\<close> is pydub's \<^verbatim>\<open>AudioSegment\<close>. The field
  \<^verbatim>\<open>floor\<close> is \<open>floor_material\<close>.
\<close>

record 'seg PyImpact =
  initial_amp :: real
  prevent_distortion :: bool
  logging :: bool
  object_modes :: "int option \<rightharpoonup> (int \<rightharpoonup> CollisionAudioInfo)"
  resonance_audio :: bool
  floor_material :: AudioMaterial
  material_data :: "string \<rightharpoonup> ModeDistribution"
  mode_properties_log :: "(int \<times> int option \<times> nat) \<rightharpoonup> ModeProps"
  static_audio_data_overrides :: "string \<rightharpoonup> ObjectAudioStatic"
  collision_events :: "(int \<times> CollisionAudioEvent) list"
  cached_audio_info :: bool
  static_audio_data :: "(int \<times> ObjectAudioStatic) list"
  scrape_summed_masters :: "scrape_key \<rightharpoonup> 'seg"
  scrape_previous_index :: nat
  scrape_start_velocities :: "scrape_key \<rightharpoonup> real"
  scrape_events_count :: "scrape_key \<rightharpoonup> nat"
  initialized :: bool
  normal_variates :: "real list"

text \<open>
  The collaborators that are not in the file. \<open>mk_event\<close> is the constructor
  \<^verbatim>\<open>CollisionAudioEvent(collision, object_0_static, object_0_dynamic, object_1_static,
  object_1_dynamic, previous_areas)\<close>, the second object absent for an environment collision.
  \<open>catalog\<close> is the dict that \<^verbatim>\<open>get_static_audio_data()\<close> reads from \<^verbatim>\<open>objects.csv\<close>;
  \<open>set_order\<close> is the order in which Python iterates \<^verbatim>\<open>set(materials)\<close>; \<open>scrape_surface\<close> is
  \<^verbatim>\<open>SCRAPE_SURFACE\<close>; \<open>seg_of_bytes\<close> is \<^verbatim>\<open>AudioSegment(data, frame_rate=SAMPLE_RATE,
  sample_width=2, channels=CHANNELS)\<close>, \<open>seg_silent\<close> is \<^verbatim>\<open>AudioSegment.silent\<close>, \<open>seg_append\<close>,
  \<open>seg_repeat\<close>, \<open>seg_len\<close> and \<open>seg_slice\<close> are \<^verbatim>\<open>+\<close>, \<^verbatim>\<open>*\<close>, \<^verbatim>\<open>len\<close> and slicing on segments,
  and the other fields carry the names of the library functions they stand for.
\<close>

record 'seg ext =
  mk_event :: "CollisionData \<Rightarrow> ObjectAudioStatic \<Rightarrow> Rigidbody
                \<Rightarrow> (ObjectAudioStatic \<times> Rigidbody) option \<Rightarrow> (int \<times> real) list
                \<Rightarrow> CollisionAudioEvent"
  sum_modes :: "Modes \<Rightarrow> real \<Rightarrow> real list"
  base64_sound :: "real list \<Rightarrow> Base64Sound"
  b64encode :: "8 word list \<Rightarrow> string"
  catalog :: "string \<rightharpoonup> ObjectAudioStatic"
  set_order :: "AudioMaterial list \<Rightarrow> AudioMaterial list"
  scrape_surface :: "real list"
  np_interp :: "real list \<Rightarrow> real list \<Rightarrow> real list \<Rightarrow> real list"
  gaussian_filter1d :: "real list \<Rightarrow> real \<Rightarrow> real list"
  tobytes :: "real list \<Rightarrow> 8 word list"
  int16_tobytes :: "int list \<Rightarrow> 8 word list"
  seg_of_bytes :: "8 word list \<Rightarrow> 'seg"
  seg_silent :: "nat \<Rightarrow> 'seg"
  apply_gain :: "'seg \<Rightarrow> real \<Rightarrow> 'seg"
  fade_in :: "'seg \<Rightarrow> nat \<Rightarrow> 'seg"
  fade_out :: "'seg \<Rightarrow> nat \<Rightarrow> 'seg"
  get_array_of_samples :: "'seg \<Rightarrow> real list"
  seg_append :: "'seg \<Rightarrow> 'seg \<Rightarrow> 'seg"
  seg_repeat :: "'seg \<Rightarrow> nat \<Rightarrow> 'seg"
  overlay :: "'seg \<Rightarrow> 'seg \<Rightarrow> 'seg"
  seg_len :: "'seg \<Rightarrow> nat"
  seg_slice :: "'seg \<Rightarrow> int option \<Rightarrow> int option \<Rightarrow> 'seg"
  raw_data :: "'seg \<Rightarrow> 8 word list"

subsection \<open>Collision classification: \<^verbatim>\<open>_get_collision_types\<close>\<close>

text \<open>
  The first loop: \<^verbatim>\<open>rigidbody_data\<close>, from the \<^verbatim>\<open>rigi\<close> and \<^verbatim>\<open>rojv\<close> records. A later record of an
  id replaces an earlier one. The loops run over \<^verbatim>\<open>range(len(resp) - 1)\<close>, that is, over
  \<open>butlast resp\<close>.
\<close>

fun add_rigidbodies :: "(int \<times> Rigidbody) list \<Rightarrow> (int \<rightharpoonup> Rigidbody) \<Rightarrow> (int \<rightharpoonup> Rigidbody)" where
  "add_rigidbodies [] m = m"
| "add_rigidbodies ((i, r) # rs) m = add_rigidbodies rs (m(i \<mapsto> r))"

fun rigidbody_data :: "OutputData list \<Rightarrow> (int \<rightharpoonup> Rigidbody) \<Rightarrow> (int \<rightharpoonup> Rigidbody)" where
  "rigidbody_data [] m = m"
| "rigidbody_data (Rigi rs # resp) m = rigidbody_data resp (add_rigidbodies rs m)"
| "rigidbody_data (Rojv rs # resp) m = rigidbody_data resp (add_rigidbodies rs m)"
| "rigidbody_data (_ # resp) m = rigidbody_data resp m"

text \<open>
  The second loop builds one candidate event for each \<^verbatim>\<open>coll\<close> and \<^verbatim>\<open>enco\<close> record. Each
  subscript \<^verbatim>\<open>self.static_audio_data[id]\<close> and \<^verbatim>\<open>rigidbody_data[id]\<close> raises \<^verbatim>\<open>KeyError\<close> for an
  id that is not a key; the arguments are evaluated from left to right. \<open>frame_events\<close> is
  the list of the events in the order the loop builds them.
\<close>

definition subscript :: "('k \<rightharpoonup> 'v) \<Rightarrow> 'k \<Rightarrow> error + 'v" where
  "subscript m k = (case m k of None \<Rightarrow> Inl KeyError | Some v \<Rightarrow> Inr v)"

text \<open>Sequencing: an exception of the first computation ends the second.\<close>

definition then_do :: "error + 'a \<Rightarrow> ('a \<Rightarrow> error + 'b) \<Rightarrow> error + 'b" where
  "then_do r f = (case r of Inl e \<Rightarrow> Inl e | Inr v \<Rightarrow> f v)"

definition obj_obj_event ::
  "('seg, 'x) ext_scheme \<Rightarrow> (int \<times> ObjectAudioStatic) list \<Rightarrow> (int \<rightharpoonup> Rigidbody)
    \<Rightarrow> (int \<times> real) list \<Rightarrow> Collision \<Rightarrow> error + CollisionAudioEvent" where
  "obj_obj_event X sad rbd previous_areas c =
     then_do (subscript (map_of sad) (collider_id c)) (\<lambda>s0.
     then_do (subscript rbd (collider_id c)) (\<lambda>d0.
     then_do (subscript (map_of sad) (collidee_id c)) (\<lambda>s1.
     then_do (subscript rbd (collidee_id c)) (\<lambda>d1.
       Inr (mk_event X (CollisionObjObj c) s0 d0 (Some (s1, d1)) previous_areas)))))"

definition obj_env_event ::
  "('seg, 'x) ext_scheme \<Rightarrow> (int \<times> ObjectAudioStatic) list \<Rightarrow> (int \<rightharpoonup> Rigidbody)
    \<Rightarrow> (int \<times> real) list \<Rightarrow> EnvironmentCollision \<Rightarrow> error + CollisionAudioEvent" where
  "obj_env_event X sad rbd previous_areas c =
     then_do (subscript (map_of sad) (env_object_id c)) (\<lambda>s0.
     then_do (subscript rbd (env_object_id c)) (\<lambda>d0.
       Inr (mk_event X (CollisionObjEnv c) s0 d0 None previous_areas)))"

fun frame_events ::
  "('seg, 'x) ext_scheme \<Rightarrow> (int \<times> ObjectAudioStatic) list \<Rightarrow> (int \<rightharpoonup> Rigidbody)
    \<Rightarrow> (int \<times> real) list \<Rightarrow> OutputData list \<Rightarrow> error + CollisionAudioEvent list" where
  "frame_events X sad rbd pa [] = Inr []"
| "frame_events X sad rbd pa (Coll c # resp) =
     then_do (obj_obj_event X sad rbd pa c) (\<lambda>ev.
     then_do (frame_events X sad rbd pa resp) (\<lambda>evs. Inr (ev # evs)))"
| "frame_events X sad rbd pa (Enco c # resp) =
     then_do (obj_env_event X sad rbd pa c) (\<lambda>ev.
     then_do (frame_events X sad rbd pa resp) (\<lambda>evs. Inr (ev # evs)))"
| "frame_events X sad rbd pa (_ # resp) = frame_events X sad rbd pa resp"

text \<open>
  \<^verbatim>\<open>collision_events_per_object\<close>: each event is appended to the list of its primary, a new
  key going to the end of the dict.
\<close>

definition append_event ::
  "(int \<times> CollisionAudioEvent list) list \<Rightarrow> CollisionAudioEvent
    \<Rightarrow> (int \<times> CollisionAudioEvent list) list" where
  "append_event per ev =
     (case map_of per (primary_id ev) of
        None \<Rightarrow> per @ [(primary_id ev, [ev])]
      | Some evs \<Rightarrow> AList.update (primary_id ev) (evs @ [ev]) per)"

text \<open>Python's \<^verbatim>\<open>max(xs, key=f)\<close>: the first element whose key no other exceeds.\<close>

fun max_from :: "('a \<Rightarrow> real) \<Rightarrow> 'a \<Rightarrow> 'a list \<Rightarrow> 'a" where
  "max_from f best [] = best"
| "max_from f best (x # xs) = (if f best < f x then max_from f x xs else max_from f best xs)"

fun py_max :: "('a \<Rightarrow> real) \<Rightarrow> 'a list \<Rightarrow> error + 'a" where
  "py_max f [] = Inl ValueError"
| "py_max f (x # xs) = Inr (max_from f x xs)"

definition significant :: "CollisionAudioEvent \<Rightarrow> bool" where
  "significant e \<longleftrightarrow> magnitude e > 0 \<and> collision_type e \<noteq> none"

text \<open>The last loop: the significant event of each primary, stored under the event's primary.\<close>

fun significant_events ::
  "(int \<times> CollisionAudioEvent list) list \<Rightarrow> (int \<times> CollisionAudioEvent) list
    \<Rightarrow> (int \<times> CollisionAudioEvent) list" where
  "significant_events [] ce = ce"
| "significant_events ((pid, cands) # per) ce =
     (let events = filter significant cands in
      if length events > 0 then
        (case py_max magnitude events of
           Inl _ \<Rightarrow> significant_events per ce
         | Inr event \<Rightarrow> significant_events per (AList.update (primary_id event) event ce))
      else significant_events per ce)"

definition get_collision_types ::
  "('seg, 'x) ext_scheme \<Rightarrow> 'seg PyImpact \<Rightarrow> OutputData list \<Rightarrow> error + 'seg PyImpact" where
  "get_collision_types X st resp =
     (let previous_areas = map (\<lambda>(k, v). (k, area v)) (collision_events st);
          st1 = st\<lparr>collision_events := []\<rparr>;
          rbd = rigidbody_data (butlast resp) Map.empty
      in case frame_events X (static_audio_data st1) rbd previous_areas (butlast resp) of
           Inl e \<Rightarrow> Inl e
         | Inr evs \<Rightarrow>
             Inr (st1\<lparr>collision_events :=
                        significant_events (foldl append_event [] evs) (collision_events st1)\<rparr>))"

text \<open>The candidates of a frame: the events that the second loop builds, in its order.\<close>

definition candidates ::
  "('seg, 'x) ext_scheme \<Rightarrow> 'seg PyImpact \<Rightarrow> OutputData list \<Rightarrow> CollisionAudioEvent list" where
  "candidates X st resp =
     (case frame_events X (static_audio_data st) (rigidbody_data (butlast resp) Map.empty)
             (map (\<lambda>(k, v). (k, area v)) (collision_events st)) (butlast resp) of
        Inl _ \<Rightarrow> [] | Inr evs \<Rightarrow> evs)"

subsection \<open>Sampling modes: \<^verbatim>\<open>_get_object_modes\<close>\<close>

text \<open>
  \<^verbatim>\<open>np.random.normal(loc, scale)\<close> raises \<^verbatim>\<open>ValueError\<close> for a negative scale and otherwise
  returns \<^verbatim>\<open>loc + scale * z\<close> for the next standard normal variate \<^verbatim>\<open>z\<close>.
\<close>

definition np_random_normal :: "real \<Rightarrow> real \<Rightarrow> real list \<Rightarrow> error + (real \<times> real list)" where
  "np_random_normal loc scale zs =
     (if scale < 0 then Inl ValueError
      else case zs of [] \<Rightarrow> Inl Exhausted | z # zs' \<Rightarrow> Inr (loc + scale * z, zs'))"

text \<open>\<^verbatim>\<open>np.random.normal(loc, scale, n)\<close>: an array of \<^verbatim>\<open>n\<close> draws.\<close>

fun np_random_normal_n :: "real \<Rightarrow> real \<Rightarrow> nat \<Rightarrow> real list \<Rightarrow> error + (real list \<times> real list)" where
  "np_random_normal_n loc scale 0 zs = (if scale < 0 then Inl ValueError else Inr ([], zs))"
| "np_random_normal_n loc scale (Suc n) zs =
     then_do (np_random_normal loc scale zs) (\<lambda>(x, zs').
     then_do (np_random_normal_n loc scale n zs') (\<lambda>(xs, zs''). Inr (x # xs, zs'')))"

text \<open>
  The rejection loops \<^verbatim>\<open>j = 0; while j < lo: j = c + np.random.normal(0, c / 10)\<close>. The
  first test always fails (\<^verbatim>\<open>0 < lo\<close> for both bounds, 20 and 0.001), so at least one
  variate is drawn.
\<close>

fun draw_at_least :: "real \<Rightarrow> real \<Rightarrow> real list \<Rightarrow> error + (real \<times> real list)" where
  "draw_at_least lo c [] = (if c / 10 < 0 then Inl ValueError else Inl Exhausted)"
| "draw_at_least lo c (z # zs) =
     (if c / 10 < 0 then Inl ValueError
      else let j = c + (0 + c / 10 * z) in
        if j < lo then draw_at_least lo c zs else Inr (j, zs))"

text \<open>A list subscript \<^verbatim>\<open>xs[i]\<close> with \<^verbatim>\<open>i \<ge> 0\<close>.\<close>

definition item :: "'a list \<Rightarrow> nat \<Rightarrow> error + 'a" where
  "item xs i = (if i < length xs then Inr (xs ! i) else Inl IndexError)"

text \<open>One turn of the loop over \<^verbatim>\<open>jm\<close>: the three draws, appended to the arrays.\<close>

definition sample_mode :: "ModeDistribution \<Rightarrow> nat \<Rightarrow> Modes \<Rightarrow> real list \<Rightarrow> error + (Modes \<times> real list)" where
  "sample_mode data jm m zs =
     then_do (item (cf data) jm) (\<lambda>c.
     then_do (draw_at_least 20 c zs) (\<lambda>(jf, zs1).
     then_do (item (op data) jm) (\<lambda>p.
     then_do (np_random_normal 0 10 zs1) (\<lambda>(n, zs2).
     then_do (item (rt data) jm) (\<lambda>r.
     then_do (draw_at_least (1 / 1000) r zs2) (\<lambda>(jt, zs3).
       Inr (\<lparr>frequencies = frequencies m @ [jf],
             powers = powers m @ [p + n],
             decay_times = decay_times m @ [jt * 1000]\<rparr>, zs3)))))))"

fun sample_modes :: "ModeDistribution \<Rightarrow> nat list \<Rightarrow> Modes \<Rightarrow> real list \<Rightarrow> error + (Modes \<times> real list)" where
  "sample_modes data [] m zs = Inr (m, zs)"
| "sample_modes data (jm # jms) m zs =
     then_do (sample_mode data jm m zs) (\<lambda>(m', zs'). sample_modes data jms m' zs')"

definition get_object_modes :: "'seg PyImpact \<Rightarrow> string \<Rightarrow> error + (Modes \<times> 'seg PyImpact)" where
  "get_object_modes st mat =
     then_do (subscript (material_data st) mat) (\<lambda>data.
     then_do (sample_modes data [0..<10] \<lparr>frequencies = [], powers = [], decay_times = []\<rparr>
                (normal_variates st)) (\<lambda>(m, zs).
       Inr (m, st\<lparr>normal_variates := zs\<rparr>)))"

subsection \<open>Modal synthesis: \<^verbatim>\<open>synth_impact_modes\<close>\<close>

text \<open>
  Modelled from the spec: \<^verbatim>\<open>Modes.mode_add\<close>, which is not in the sources. The spec:
  "element-wise sum zero-padded to the longer length".
\<close>

fun mode_add :: "real list \<Rightarrow> real list \<Rightarrow> real list" where
  "mode_add [] ys = ys"
| "mode_add xs [] = xs"
| "mode_add (x # xs) (y # ys) = (x + y) # mode_add xs ys"

text \<open>
  \<^verbatim>\<open>scipy.signal.fftconvolve(a, b)\<close> in its default mode: the full discrete convolution, of
  length \<^verbatim>\<open>len(a) + len(b) - 1\<close>, and the empty array when either input is empty.
\<close>

fun convolve :: "real list \<Rightarrow> real list \<Rightarrow> real list" where
  "convolve [] ys = []"
| "convolve (x # xs) ys =
     (if ys = [] then [] else mode_add (map (\<lambda>y. x * y) ys) (0 # convolve xs ys))"

text \<open>\<^verbatim>\<open>np.linspace(a, b, n)\<close>; a negative \<^verbatim>\<open>n\<close> raises \<^verbatim>\<open>ValueError\<close>.\<close>

definition linspace :: "real \<Rightarrow> real \<Rightarrow> int \<Rightarrow> error + real list" where
  "linspace a b n =
     (if n < 0 then Inl ValueError
      else if n = 1 then Inr [a]
      else Inr (map (\<lambda>i. a + real i * (b - a) / real (nat n - 1)) [0..<nat n]))"

text \<open>\<^verbatim>\<open>np.max\<close> of an array, and \<^verbatim>\<open>max\<close> of a sequence; both raise \<^verbatim>\<open>ValueError\<close> when it is empty.\<close>

definition np_max :: "real list \<Rightarrow> error + real" where
  "np_max xs = (case xs of [] \<Rightarrow> Inl ValueError | x # xs' \<Rightarrow> Inr (fold max xs' x))"

definition np_min :: "real list \<Rightarrow> error + real" where
  "np_min xs = (case xs of [] \<Rightarrow> Inl ValueError | x # xs' \<Rightarrow> Inr (fold min xs' x))"

definition synth_impact_modes ::
  "('seg, 'x) ext_scheme \<Rightarrow> Modes \<Rightarrow> Modes \<Rightarrow> real \<Rightarrow> real \<Rightarrow> error + real list option" where
  "synth_impact_modes X modes1 modes2 obj_mass res =
     (let h1 = sum_modes X modes1 res;
          h2 = sum_modes X modes2 res;
          h = mode_add h1 h2
      in if length h = 0 then Inr None
         else
           let max_t = 1 / 1000 * obj_mass;
               max_t = min max_t (2 / 1000);
               n_pts = \<lceil>max_t * 44100\<rceil>
           in then_do (linspace 0 pi n_pts) (\<lambda>tt.
              let frc = map sin tt;
                  x = convolve h frc
              in then_do (np_max x) (\<lambda>mx. Inr (Some (map (\<lambda>v. v / \<bar>mx\<bar>) x)))))"

subsection \<open>Impacts: \<^verbatim>\<open>make_impact_audio\<close>, \<^verbatim>\<open>get_sound\<close>, \<^verbatim>\<open>get_impact_sound_command\<close>\<close>

text \<open>\<^verbatim>\<open>self.object_modes[id2][id1]\<close>, read and written.\<close>

definition get_info :: "'seg PyImpact \<Rightarrow> int option \<Rightarrow> int \<Rightarrow> error + CollisionAudioInfo" where
  "get_info st id2 id1 = then_do (subscript (object_modes st) id2) (\<lambda>d. subscript d id1)"

definition set_info :: "'seg PyImpact \<Rightarrow> int option \<Rightarrow> int \<Rightarrow> CollisionAudioInfo \<Rightarrow> 'seg PyImpact" where
  "set_info st id2 id1 i =
     st\<lparr>object_modes := (object_modes st)
           (id2 \<mapsto> (case object_modes st id2 of None \<Rightarrow> Map.empty | Some d \<Rightarrow> d)(id1 \<mapsto> i))\<rparr>"

text \<open>
  \<^verbatim>\<open>make_impact_audio\<close>. The loop that "unpacks" the material names compares a string with
  an enum member, changes nothing and is left out. \<^verbatim>\<open>modes_2\<close> is the object stored in
  \<^verbatim>\<open>object_modes\<close>, so the assignment to its \<^verbatim>\<open>decay_times\<close> changes the engine's state.
\<close>

definition make_impact_audio ::
  "('seg, 'x) ext_scheme \<Rightarrow> 'seg PyImpact \<Rightarrow> real \<Rightarrow> real \<Rightarrow> int \<Rightarrow> int option \<Rightarrow> real
    \<Rightarrow> error + ((real list option \<times> Modes \<times> Modes) \<times> 'seg PyImpact)" where
  "make_impact_audio X st amp2re1 obj_mass id1 id2 res =
     then_do (get_info st id2 id1) (\<lambda>i.
       let modes_1 = obj1_modes i;
           modes_2 = obj2_modes i;
           modes_2 = modes_2\<lparr>decay_times := map (\<lambda>t. t + 20 * log 10 amp2re1) (decay_times modes_2)\<rparr>;
           st1 = set_info st id2 id1 (i\<lparr>obj2_modes := modes_2\<rparr>)
       in then_do (synth_impact_modes X modes_1 modes_2 obj_mass res) (\<lambda>snth.
            Inr ((snth, modes_1, modes_2), st1)))"

definition norm3 :: "vec3 \<Rightarrow> real" where
  "norm3 v = (case v of (x, y, z) \<Rightarrow> sqrt (x * x + y * y + z * z))"

definition dot3 :: "vec3 \<Rightarrow> vec3 \<Rightarrow> real" where
  "dot3 u v = (case u of (a, b, c) \<Rightarrow> case v of (x, y, z) \<Rightarrow> a * x + b * y + c * z)"

definition div3 :: "vec3 \<Rightarrow> real \<Rightarrow> vec3" where
  "div3 v d = (case v of (x, y, z) \<Rightarrow> (x / d, y / d, z / d))"

definition clip :: "real \<Rightarrow> real \<Rightarrow> real \<Rightarrow> real" where
  "clip x lo hi = min (max x lo) hi"

text \<open>\<^verbatim>\<open>np.mean\<close> of a list of numbers.\<close>

definition mean :: "real list \<Rightarrow> real" where
  "mean xs = sum_list xs / real (length xs)"

text \<open>The speed normal to the surface, one value for each contact normal, and their mean.\<close>

definition normal_speed_of :: "vec3 \<Rightarrow> vec3 list \<Rightarrow> real" where
  "normal_speed_of vel contact_normals =
     (let speed = sqrt (case vel of (x, y, z) \<Rightarrow> x\<^sup>2 + y\<^sup>2 + z\<^sup>2);
          nvel = div3 vel (norm3 vel);
          nspd = map (\<lambda>n. let tmp = div3 n (norm3 n);
                             tmp = arccos (clip (dot3 tmp nvel) (- 1) 1)
                         in speed * cos tmp) contact_normals
      in mean nspd)"

text \<open>\<^verbatim>\<open>log_modes\<close>; the key \<^verbatim>\<open>str(id1) + "_" + str(id2) + "__" + str(count)\<close> is the triple.\<close>

definition log_modes ::
  "'seg PyImpact \<Rightarrow> nat \<Rightarrow> int \<Rightarrow> int option \<Rightarrow> Modes \<Rightarrow> Modes \<Rightarrow> real \<Rightarrow> string \<Rightarrow> string
    \<Rightarrow> 'seg PyImpact" where
  "log_modes st cnt id1 id2 modes_1 modes_2 a mat1 mat2 =
     st\<lparr>mode_properties_log := (mode_properties_log st)((id1, id2, cnt) \<mapsto>
          \<lparr>modes_count = cnt, other_id = id1, target_id = id2, props_amp = a,
           other_material = mat1, target_material = mat2,
           modes_1_log = modes_1, modes_2_log = modes_2\<rparr>)\<rparr>"

text \<open>
  \<^verbatim>\<open>get_sound\<close>, in the four parts of its body. Lines 402 to 408: the entry of the pair in
  \<^verbatim>\<open>object_modes\<close>, created with freshly sampled modes (the secondary's first) when absent.
\<close>

definition ensure_info ::
  "'seg PyImpact \<Rightarrow> int \<Rightarrow> string \<Rightarrow> real \<Rightarrow> int option \<Rightarrow> string \<Rightarrow> error + 'seg PyImpact" where
  "ensure_info st prim_id prim_material prim_amp sec_id sec_material =
     (let st1 = (if object_modes st sec_id = None
                 then st\<lparr>object_modes := (object_modes st)(sec_id \<mapsto> Map.empty)\<rparr> else st)
      in if (case object_modes st1 sec_id of None \<Rightarrow> True | Some d \<Rightarrow> d prim_id = None)
         then then_do (get_object_modes st1 sec_material) (\<lambda>(m_sec, sa).
              then_do (get_object_modes sa prim_material) (\<lambda>(m_prim, sb).
                Inr (set_info sb sec_id prim_id
                       (new_CollisionAudioInfo m_sec m_prim (prim_amp * initial_amp sb)))))
         else Inr st1)"

text \<open>
  Lines 426 to 438, the first event of a pair: \<^verbatim>\<open>make_impact_audio\<close>, the stored amp, and the
  speed and modes saved for later events.
\<close>

definition first_impact ::
  "('seg, 'x) ext_scheme \<Rightarrow> 'seg PyImpact \<Rightarrow> real \<Rightarrow> real \<Rightarrow> real \<Rightarrow> int \<Rightarrow> int option \<Rightarrow> real
    \<Rightarrow> error + ((real list option \<times> Modes \<times> Modes \<times> real) \<times> 'seg PyImpact)" where
  "first_impact X st amp2re1 obj_mass normal_speed prim_id sec_id res =
     then_do (make_impact_audio X st amp2re1 obj_mass prim_id sec_id res)
       (\<lambda>((sound, modes_1, modes_2), sa).
     then_do (get_info sa sec_id prim_id) (\<lambda>i.
       Inr ((sound, modes_1, modes_2, info_amp i),
            set_info sa sec_id prim_id
              (i\<lparr>init_speed := normal_speed, obj1_modes := modes_1, obj2_modes := modes_2\<rparr>))))"

text \<open>
  Lines 440 to 449, a later event: the amp scaled by the speed, the powers of the stored
  modes perturbed, and the sound synthesised again.
\<close>

definition later_impact ::
  "('seg, 'x) ext_scheme \<Rightarrow> 'seg PyImpact \<Rightarrow> CollisionAudioInfo \<Rightarrow> real \<Rightarrow> real \<Rightarrow> int
    \<Rightarrow> int option \<Rightarrow> real
    \<Rightarrow> error + ((real list option \<times> Modes \<times> Modes \<times> real) \<times> 'seg PyImpact)" where
  "later_impact X st info obj_mass normal_speed prim_id sec_id res =
     (let a = info_amp info * normal_speed / init_speed info;
          modes_1 = obj1_modes info;
          modes_2 = obj2_modes info
      in then_do (np_random_normal_n 0 2 (length (powers modes_1)) (normal_variates st))
           (\<lambda>(n1, zs1).
         let modes_1 = modes_1\<lparr>powers := map2 (+) (powers modes_1) n1\<rparr> in
         then_do (np_random_normal_n 0 2 (length (powers modes_2)) zs1) (\<lambda>(n2, zs2).
         let modes_2 = modes_2\<lparr>powers := map2 (+) (powers modes_2) n2\<rparr>;
             sa = set_info (st\<lparr>normal_variates := zs2\<rparr>) sec_id prim_id
                    (info\<lparr>obj1_modes := modes_1, obj2_modes := modes_2\<rparr>)
         in then_do (synth_impact_modes X modes_1 modes_2 obj_mass res) (\<lambda>sound.
              Inr ((sound, modes_1, modes_2, a), sa)))))"

text \<open>
  Lines 463 to 467: the amp clamped when distortion is prevented, and the sound divided by
  its peak and scaled by the amp.
\<close>

definition scale_sound :: "bool \<Rightarrow> real \<Rightarrow> real list \<Rightarrow> error + real list" where
  "scale_sound prevent a sound =
     (let a = (if prevent \<and> \<bar>a\<bar> > 99 / 100 then 99 / 100 else a)
      in then_do (np_max (map abs sound)) (\<lambda>peak. Inr (map (\<lambda>v. a * v / peak) sound)))"

text \<open>Lines 451 to 468: the log, the count of the pair's events and the scaled sound.\<close>

definition finish_sound ::
  "'seg PyImpact \<Rightarrow> real list option \<Rightarrow> Modes \<Rightarrow> Modes \<Rightarrow> real \<Rightarrow> int \<Rightarrow> string
    \<Rightarrow> int option \<Rightarrow> string \<Rightarrow> error + (real list option \<times> 'seg PyImpact)" where
  "finish_sound st sound modes_1 modes_2 a prim_id prim_material sec_id sec_material =
     then_do (get_info st sec_id prim_id) (\<lambda>info.
       let st1 = (if logging st
                  then log_modes st (info_count info) prim_id sec_id modes_1 modes_2 a
                         prim_material sec_material
                  else st)
       in case sound of
            None \<Rightarrow> Inr (None, st1)
          | Some samples \<Rightarrow>
              let st2 = set_info st1 sec_id prim_id (count_collisions info)
              in then_do (scale_sound (prevent_distortion st2) a samples) (\<lambda>scaled.
                   Inr (Some scaled, st2)))"

text \<open>
  The whole of \<^verbatim>\<open>get_sound\<close>. The result is the array that its last line hands to
  \<^verbatim>\<open>Base64Sound\<close>, or \<open>None\<close>. Both amps are Python floats, whose division by zero raises.
\<close>

definition get_sound ::
  "('seg, 'x) ext_scheme \<Rightarrow> 'seg PyImpact \<Rightarrow> vec3 \<Rightarrow> vec3 list \<Rightarrow> int \<Rightarrow> string \<Rightarrow> real \<Rightarrow> real
    \<Rightarrow> int option \<Rightarrow> string \<Rightarrow> real \<Rightarrow> real \<Rightarrow> real
    \<Rightarrow> error + (real list option \<times> 'seg PyImpact)" where
  "get_sound X st vel contact_normals prim_id prim_material prim_amp prim_mass
       sec_id sec_material sec_amp sec_mass res =
     (if prim_amp = 0 then Inl ZeroDivisionError
      else
       let amp2re1 = sec_amp / prim_amp in
       then_do (ensure_info st prim_id prim_material prim_amp sec_id sec_material) (\<lambda>st2.
         let normal_speed = normal_speed_of vel contact_normals;
             obj_mass = min prim_mass sec_mass
         in then_do (get_info st2 sec_id prim_id) (\<lambda>info.
            then_do
              (if info_count info = 0
               then first_impact X st2 amp2re1 obj_mass normal_speed prim_id sec_id res
               else later_impact X st2 info obj_mass normal_speed prim_id sec_id res)
              (\<lambda>((sound, modes_1, modes_2, a), st3).
                 finish_sound st3 sound modes_1 modes_2 a prim_id prim_material
                   sec_id sec_material))))"

text \<open>\<^verbatim>\<open>_get_unique_id\<close>: \<^verbatim>\<open>int.from_bytes(urandom(3), byteorder='big')\<close>.\<close>

definition get_unique_id :: "8 word list \<Rightarrow> error + (nat \<times> 8 word list)" where
  "get_unique_id urandom =
     (case urandom of
        b0 # b1 # b2 # bs \<Rightarrow> Inr (unat b0 * 65536 + unat b1 * 256 + unat b2, bs)
      | _ \<Rightarrow> Inl Exhausted)"

text \<open>
  \<^verbatim>\<open>np.mean(contact_points, axis=0)\<close> and the three subscripts of the result; for no contact
  point the mean is a scalar and the subscript raises \<^verbatim>\<open>IndexError\<close>.
\<close>

definition mean_point :: "vec3 list \<Rightarrow> error + vec3" where
  "mean_point ps =
     (if ps = [] then Inl IndexError
      else Inr (mean (map fst ps), mean (map (fst \<circ> snd) ps), mean (map (snd \<circ> snd) ps)))"

text \<open>Modelled from the spec: the constants of \<^verbatim>\<open>tdw.audio_constants\<close>, 44.1 kHz and one channel.\<close>

definition SAMPLE_RATE :: nat where
  "SAMPLE_RATE = 44100"

definition CHANNELS :: nat where
  "CHANNELS = 1"

text \<open>
  The dict of a play command, as both \<^verbatim>\<open>get_impact_sound_command\<close> and
  \<^verbatim>\<open>get_scrape_sound_command\<close> build it; the id is drawn before the position is read.
\<close>

definition play_command ::
  "'seg PyImpact \<Rightarrow> 8 word list \<Rightarrow> vec3 list \<Rightarrow> nat \<Rightarrow> string \<Rightarrow> real
    \<Rightarrow> error + (Command \<times> 8 word list)" where
  "play_command st urandom contact_points n wav y_off =
     then_do (get_unique_id urandom) (\<lambda>(uid, urandom1).
     then_do (mean_point contact_points) (\<lambda>point.
       Inr (\<lparr>cmd_type = (if \<not> resonance_audio st then ''play_audio_data''
                          else ''play_point_source_data''),
             cmd_id = uid, position = point, num_frames = n, num_channels = CHANNELS,
             frame_rate = SAMPLE_RATE, wav_data = wav, y_pos_offset = y_off\<rparr>, urandom1)))"

definition get_impact_sound_command ::
  "('seg, 'x) ext_scheme \<Rightarrow> 'seg PyImpact \<Rightarrow> 8 word list \<Rightarrow> vec3 \<Rightarrow> vec3 list \<Rightarrow> vec3 list
    \<Rightarrow> int \<Rightarrow> string \<Rightarrow> real \<Rightarrow> real \<Rightarrow> int option \<Rightarrow> string \<Rightarrow> real \<Rightarrow> real \<Rightarrow> real
    \<Rightarrow> error + (Command option \<times> 'seg PyImpact \<times> 8 word list)" where
  "get_impact_sound_command X st urandom vel contact_points contact_normals prim_id
       prim_material prim_amp prim_mass sec_id sec_material sec_amp sec_mass res =
     then_do (get_sound X st vel contact_normals prim_id prim_material prim_amp prim_mass
                sec_id sec_material sec_amp sec_mass res) (\<lambda>(impact_audio, st1).
       case impact_audio of
         None \<Rightarrow> Inr (None, st1, urandom)
       | Some samples \<Rightarrow>
           let b = base64_sound X samples in
           then_do (play_command st1 urandom contact_points (snd_length b) (wav_str b) (1 / 10))
             (\<lambda>(c, urandom1). Inr (Some c, st1, urandom1)))"

subsection \<open>Scrapes: \<^verbatim>\<open>get_impulse_response\<close>, \<^verbatim>\<open>get_scrape_sound\<close>, \<^verbatim>\<open>_end_scrape\<close>\<close>

definition SCRAPE_MAX_VELOCITY :: real where
  "SCRAPE_MAX_VELOCITY = 5"

definition SCRAPE_M_PER_PIXEL :: real where
  "SCRAPE_M_PER_PIXEL = 1394068 / 1000 * (1 / 10 ^ 9)"

definition SCRAPE_TARGET_DBFS :: real where
  "SCRAPE_TARGET_DBFS = - 20"

definition end_scrape :: "'seg PyImpact \<Rightarrow> scrape_key \<Rightarrow> 'seg PyImpact" where
  "end_scrape st scrape_key =
     st\<lparr>scrape_events_count := (scrape_events_count st)(scrape_key := None),
        scrape_summed_masters := (scrape_summed_masters st)(scrape_key := None),
        scrape_start_velocities := (scrape_start_velocities st)(scrape_key := None)\<rparr>"

definition get_impulse_response ::
  "('seg, 'x) ext_scheme \<Rightarrow> 'seg PyImpact \<Rightarrow> vec3 \<Rightarrow> vec3 list \<Rightarrow> int \<Rightarrow> string \<Rightarrow> real \<Rightarrow> real
    \<Rightarrow> int option \<Rightarrow> string \<Rightarrow> real \<Rightarrow> real \<Rightarrow> real
    \<Rightarrow> error + ((real list \<times> real) \<times> 'seg PyImpact)" where
  "get_impulse_response X st vel contact_normals prim_id prim_material prim_amp prim_mass
       sec_id sec_material sec_amp sec_mass res =
     then_do (get_sound X st vel contact_normals prim_id prim_material prim_amp prim_mass
                sec_id sec_material sec_amp sec_mass res) (\<lambda>(unused, st1).
     then_do (get_info st1 sec_id prim_id) (\<lambda>info.
       let modes_1 = obj1_modes info;
           modes_2 = obj2_modes info;
           h1 = sum_modes X modes_1 res;
           h2 = sum_modes X modes_2 res;
           h = mode_add h1 h2
       in then_do (np_min (frequencies modes_1)) (\<lambda>f. Inr ((h, f), st1))))"

text \<open>\<^verbatim>\<open>np.interp(x, [x0, x1], [y0, y1])\<close> for a number \<^verbatim>\<open>x\<close> and \<^verbatim>\<open>x0 < x1\<close>.\<close>

definition interp1 :: "real \<Rightarrow> real \<times> real \<Rightarrow> real \<times> real \<Rightarrow> real" where
  "interp1 x xp fp =
     (case xp of (x0, x1) \<Rightarrow> case fp of (y0, y1) \<Rightarrow>
        if x \<le> x0 then y0 else if x1 \<le> x then y1
        else (y1 - y0) / (x1 - x0) * (x - x0) + y0)"

text \<open>A slice \<^verbatim>\<open>xs[i:j]\<close> with \<^verbatim>\<open>0 \<le> i\<close> and \<^verbatim>\<open>0 \<le> j\<close>.\<close>

definition slice :: "'a list \<Rightarrow> nat \<Rightarrow> nat \<Rightarrow> 'a list" where
  "slice xs i j = take (j - i) (drop i xs)"

text \<open>The finite difference \<^verbatim>\<open>(s[1:] - s[0:-1]) / SCRAPE_M_PER_PIXEL\<close>.\<close>

definition diff_per_pixel :: "real list \<Rightarrow> real list" where
  "diff_per_pixel xs = map2 (\<lambda>a b. (a - b) / SCRAPE_M_PER_PIXEL) (tl xs) (butlast xs)"

text \<open>\<^verbatim>\<open>int(r)\<close> and \<^verbatim>\<open>astype(np.int16)\<close> on a value in range: truncation towards zero.\<close>

definition trunc_int :: "real \<Rightarrow> int" where
  "trunc_int r = (if 0 \<le> r then \<lfloor>r\<rfloor> else \<lceil>r\<rceil>)"

definition normalize_floats :: "real list \<Rightarrow> real list" where
  "normalize_floats arr =
     (if list_all (\<lambda>v. v = 0) arr then arr
      else map (\<lambda>v. v / fold max (map abs (tl arr)) \<bar>hd arr\<bar>) arr)"

definition normalize_16bit_int :: "real list \<Rightarrow> int list" where
  "normalize_16bit_int arr = map (\<lambda>v. trunc_int (v * 32767)) (normalize_floats arr)"

text \<open>
  Lines 715 to 730 of \<^verbatim>\<open>get_scrape_sound\<close>: the force signal from the surface slopes and
  curvatures between \<open>prev\<close> and \<open>final_ind\<close>. numpy raises \<^verbatim>\<open>ValueError\<close> when the two
  summands differ in length.
\<close>

definition scrape_force ::
  "('seg, 'x) ext_scheme \<Rightarrow> nat \<Rightarrow> nat \<Rightarrow> int \<Rightarrow> error + real list" where
  "scrape_force X prev final_ind num_pts =
     (let dsdx = diff_per_pixel (scrape_surface X);
          d2sdx2 = diff_per_pixel dsdx
      in then_do (linspace 0 1 num_pts) (\<lambda>vect1.
         then_do (linspace 0 1 4010) (\<lambda>vect2.
           let slope_int = np_interp X vect2 vect1 (slice dsdx prev final_ind);
               curve_int = np_interp X vect2 vect1 (slice d2sdx2 prev final_ind);
               curve_int_tan = map (\<lambda>c. tanh (c / 1000)) curve_int;
               d2_section = gaussian_filter1d X curve_int_tan 10;
               vert_force = d2_section;
               hor_force = slope_int
           in then_do (np_max (map abs vert_force)) (\<lambda>peak.
                let a = map (\<lambda>v. v / peak) vert_force;
                    b = map (\<lambda>h. 2 / 10 * h) (take (length vert_force) hor_force)
                in if length a \<noteq> length b then Inl ValueError else Inr (map2 (+) a b)))))"

text \<open>
  Lines 732 to 740: the force signal as a segment, the call of \<^verbatim>\<open>apply_gain\<close> and the two
  fades. An \<^verbatim>\<open>AudioSegment\<close> is immutable: \<^verbatim>\<open>apply_gain\<close> returns a new segment, which the
  statement on line 737 does not bind.
\<close>

definition scrape_noise_seg_fade :: "('seg, 'x) ext_scheme \<Rightarrow> real list \<Rightarrow> 'seg" where
  "scrape_noise_seg_fade X t_force =
     (let noise_seg1 = seg_of_bytes X (tobytes X t_force);
          unused = apply_gain X noise_seg1 SCRAPE_TARGET_DBFS;
          noise_seg_fade = fade_out X (fade_in X noise_seg1 4) 4
      in noise_seg_fade)"

text \<open>Lines 742 to 753: the convolution with the impulse response, as a segment with gain \<open>db\<close>.\<close>

definition scrape_noise_seg_conv ::
  "('seg, 'x) ext_scheme \<Rightarrow> real list \<Rightarrow> real list \<Rightarrow> real \<Rightarrow> 'seg" where
  "scrape_noise_seg_conv X scraping_ir t_force db =
     (let noise_seg_fade = scrape_noise_seg_fade X t_force;
          conv = convolve scraping_ir (get_array_of_samples X noise_seg_fade);
          normalized_noise_ints_conv = normalize_16bit_int conv;
          noise_seg_conv = seg_of_bytes X (int16_tobytes X normalized_noise_ints_conv);
          noise_seg_conv = apply_gain X noise_seg_conv db
      in noise_seg_conv)"

text \<open>Lines 754 to 764: the overlay onto the rolling master.\<close>

definition scrape_overlay :: "('seg, 'x) ext_scheme \<Rightarrow> 'seg \<Rightarrow> 'seg \<Rightarrow> nat \<Rightarrow> 'seg" where
  "scrape_overlay X summed_master noise_seg_conv scrape_event_count =
     (let SILENCE_50MS = seg_silent X 50 in
      if scrape_event_count = 0 then seg_append X noise_seg_conv SILENCE_50MS
      else if scrape_event_count = 1
        then overlay X summed_master (seg_append X SILENCE_50MS noise_seg_conv)
      else
        let padded_current = seg_append X (seg_repeat X SILENCE_50MS scrape_event_count) noise_seg_conv;
            summed_master = seg_append X summed_master SILENCE_50MS
        in overlay X summed_master padded_current)"

text \<open>Lines 698 to 702: the number of surface points that a scrape of speed \<open>mag\<close> crosses.\<close>

definition scrape_num_pts :: "real \<Rightarrow> int" where
  "scrape_num_pts mag =
     (let dist = mag / 1000;
          num_pts = \<lfloor>dist / SCRAPE_M_PER_PIXEL\<rfloor>
      in if num_pts = 0 then 1 else num_pts)"

text \<open>
  \<^verbatim>\<open>get_scrape_sound\<close>. The result is the \<^verbatim>\<open>Base64Sound\<close> of the 100 ms chunk, or \<open>None\<close>.
\<close>

definition get_scrape_sound ::
  "('seg, 'x) ext_scheme \<Rightarrow> 'seg PyImpact \<Rightarrow> vec3 \<Rightarrow> vec3 list \<Rightarrow> int \<Rightarrow> string \<Rightarrow> real \<Rightarrow> real
    \<Rightarrow> int option \<Rightarrow> string \<Rightarrow> real \<Rightarrow> real \<Rightarrow> real
    \<Rightarrow> error + (Base64Sound option \<times> 'seg PyImpact)" where
  "get_scrape_sound X st vel contact_normals prim_id prim_material prim_amp prim_mass
       sec_id sec_material sec_amp sec_mass res =
     (let scrape_key = (prim_id, sec_id) in
      then_do
        (case scrape_summed_masters st scrape_key of
           Some m \<Rightarrow> then_do (subscript (scrape_events_count st) scrape_key) (\<lambda>c. Inr (m, c, st))
         | None \<Rightarrow>
             Inr (seg_silent X 0, 0,
                  st\<lparr>scrape_summed_masters := (scrape_summed_masters st)(scrape_key \<mapsto> seg_silent X 0),
                     scrape_events_count := (scrape_events_count st)(scrape_key \<mapsto> 0)\<rparr>))
        (\<lambda>(summed_master, scrape_event_count, st1).
      let mag = min (norm3 vel) SCRAPE_MAX_VELOCITY;
          st2 = (if scrape_event_count = 0
                 then st1\<lparr>scrape_start_velocities := (scrape_start_velocities st1)(scrape_key \<mapsto> mag)\<rparr>
                 else st1);
          db = interp1 (mag\<^sup>2) (0, SCRAPE_MAX_VELOCITY\<^sup>2) (- 80, - 12)
      in then_do (get_impulse_response X st2 vel contact_normals prim_id prim_material prim_amp
                    prim_mass sec_id sec_material sec_amp sec_mass res)
           (\<lambda>((scraping_ir, min_mode_freq), st3).
         let num_pts = scrape_num_pts mag
         in if num_pts = 1 then Inr (None, end_scrape st3 scrape_key)
            else
              let final_ind = int (scrape_previous_index st3) + num_pts;
                  wrap = (final_ind > int (length (scrape_surface X)) - 100);
                  prev = (if wrap then 0 else scrape_previous_index st3);
                  final_ind = (if wrap then num_pts else final_ind)
              in then_do (scrape_force X prev (nat final_ind) num_pts) (\<lambda>t_force.
                 let st4 = st3\<lparr>scrape_previous_index := nat final_ind\<rparr>;
                     noise_seg_conv = scrape_noise_seg_conv X scraping_ir t_force db;
                     summed_master = scrape_overlay X summed_master noise_seg_conv scrape_event_count;
                     start_idx = 100 * int scrape_event_count;
                     temp = seg_slice X summed_master
                              (Some (- (int (seg_len X summed_master) - start_idx))) None;
                     unity_chunk = seg_slice X temp None (Some 100);
                     st5 = st4\<lparr>scrape_summed_masters :=
                                  (scrape_summed_masters st4)(scrape_key \<mapsto> summed_master),
                               scrape_events_count :=
                                  (scrape_events_count st4)(scrape_key \<mapsto> scrape_event_count + 1)\<rparr>
                 in Inr (Some \<lparr>snd_bytes = raw_data X unity_chunk,
                                wav_str = b64encode X (raw_data X unity_chunk),
                                snd_length = length (raw_data X unity_chunk)\<rparr>, st5)))))"

definition get_scrape_sound_command ::
  "('seg, 'x) ext_scheme \<Rightarrow> 'seg PyImpact \<Rightarrow> 8 word list \<Rightarrow> vec3 \<Rightarrow> vec3 list \<Rightarrow> vec3 list
    \<Rightarrow> int \<Rightarrow> string \<Rightarrow> real \<Rightarrow> real \<Rightarrow> int option \<Rightarrow> string \<Rightarrow> real \<Rightarrow> real \<Rightarrow> real
    \<Rightarrow> error + (Command option \<times> 'seg PyImpact \<times> 8 word list)" where
  "get_scrape_sound_command X st urandom vel contact_points contact_normals prim_id
       prim_material prim_amp prim_mass sec_id sec_material sec_amp sec_mass res =
     then_do (get_scrape_sound X st vel contact_normals prim_id prim_material prim_amp prim_mass
                sec_id sec_material sec_amp sec_mass res) (\<lambda>(sound, st1).
       case sound of
         None \<Rightarrow> Inr (None, st1, urandom)
       | Some b \<Rightarrow>
           then_do (play_command st1 urandom contact_points (snd_length b) (wav_str b) 0)
             (\<lambda>(c, urandom1). Inr (Some c, st1, urandom1)))"

subsection \<open>The static registry: \<^verbatim>\<open>_cache_static_data\<close>\<close>

definition DEFAULT_AMP :: real where
  "DEFAULT_AMP = 2 / 10"

definition DEFAULT_MATERIAL :: AudioMaterial where
  "DEFAULT_MATERIAL = plastic_hard"

definition DEFAULT_RESONANCE :: real where
  "DEFAULT_RESONANCE = 45 / 100"

definition DEFAULT_SIZE :: int where
  "DEFAULT_SIZE = 1"

definition ROBOT_JOINT_BOUNCINESS :: real where
  "ROBOT_JOINT_BOUNCINESS = 6 / 10"

definition ROBOT_JOINT_MATERIAL :: AudioMaterial where
  "ROBOT_JOINT_MATERIAL = metal"

definition FLOOR_AMP :: real where
  "FLOOR_AMP = 5 / 10"

definition FLOOR_SIZE :: int where
  "FLOOR_SIZE = 4"

definition FLOOR_MASS :: real where
  "FLOOR_MASS = 100"

text \<open>\<^verbatim>\<open>str.lower\<close> on ASCII letters.\<close>

definition lower_char :: "char \<Rightarrow> char" where
  "lower_char c =
     (let n = (of_char c :: nat) in if 65 \<le> n \<and> n \<le> 90 then char_of (n + 32) else c)"

definition lower :: "string \<Rightarrow> string" where
  "lower str = map lower_char str"

text \<open>The dicts that the first loop reads from the \<^verbatim>\<open>segm\<close>, \<^verbatim>\<open>srob\<close> and \<^verbatim>\<open>srig\<close> records.\<close>

record static_dicts =
  categories :: "(int \<times> string) list"
  names :: "(int \<times> string) list"
  robot_joints :: "(int \<times> string \<times> real) list"
  object_masses :: "(int \<times> real) list"
  object_bouncinesses :: "(int \<times> real) list"

fun read_segm :: "(int \<times> string \<times> string) list \<Rightarrow> static_dicts \<Rightarrow> static_dicts" where
  "read_segm [] d = d"
| "read_segm ((i, nm, cat) # xs) d =
     read_segm xs (d\<lparr>names := AList.update i (lower nm) (names d),
                     categories := AList.update i cat (categories d)\<rparr>)"

fun read_srob :: "(int \<times> string \<times> real) list \<Rightarrow> static_dicts \<Rightarrow> static_dicts" where
  "read_srob [] d = d"
| "read_srob ((i, nm, m) # xs) d =
     read_srob xs (d\<lparr>robot_joints := AList.update i (nm, m) (robot_joints d)\<rparr>)"

fun read_srig :: "(int \<times> real \<times> real) list \<Rightarrow> static_dicts \<Rightarrow> static_dicts" where
  "read_srig [] d = d"
| "read_srig ((i, m, b) # xs) d =
     read_srig xs (d\<lparr>object_masses := AList.update i m (object_masses d),
                     object_bouncinesses := AList.update i b (object_bouncinesses d)\<rparr>)"

fun read_static :: "OutputData list \<Rightarrow> static_dicts \<Rightarrow> static_dicts" where
  "read_static [] d = d"
| "read_static (Segm xs # resp) d = read_static resp (read_segm xs d)"
| "read_static (Srob xs # resp) d = read_static resp (read_srob xs d)"
| "read_static (Srig xs # resp) d = read_static resp (read_srig xs d)"
| "read_static (_ # resp) d = read_static resp d"

text \<open>
  The loop over \<^verbatim>\<open>names\<close>. The registry entry of an object found in the overrides or in the
  catalog is the override's or the catalog's own object, and the two assignments to its
  \<^verbatim>\<open>mass\<close> and \<^verbatim>\<open>object_id\<close> change that object: every entry that is the same object (an
  earlier id of the same name) and the override itself change with it. \<open>src\<close> records
  which object an entry is: \<open>(True, name)\<close> an override, \<open>(False, name)\<close> a catalog row.
\<close>

record resolved =
  res_sad :: "(int \<times> ObjectAudioStatic) list"
  res_src :: "int \<rightharpoonup> bool \<times> string"
  res_overrides :: "string \<rightharpoonup> ObjectAudioStatic"
  res_catalog :: "string \<rightharpoonup> ObjectAudioStatic"
  need_to_derive :: "int list"

definition bind_shared ::
  "resolved \<Rightarrow> int \<Rightarrow> bool \<times> string \<Rightarrow> ObjectAudioStatic \<Rightarrow> resolved" where
  "bind_shared r oid key obj =
     r\<lparr>res_sad := AList.update oid obj
                     (map (\<lambda>(i, v). if res_src r i = Some key then (i, obj) else (i, v)) (res_sad r)),
       res_src := (res_src r)(oid \<mapsto> key),
       res_overrides := (if fst key then (res_overrides r)(snd key \<mapsto> obj) else res_overrides r),
       res_catalog := (if fst key then res_catalog r else (res_catalog r)(snd key \<mapsto> obj))\<rparr>"

fun resolve_names ::
  "(int \<times> real) list \<Rightarrow> (int \<times> string) list \<Rightarrow> resolved \<Rightarrow> error + resolved" where
  "resolve_names masses [] r = Inr r"
| "resolve_names masses ((oid, nm) # rest) r =
     (case res_overrides r nm of
        Some obj \<Rightarrow>
          then_do (subscript (map_of masses) oid) (\<lambda>m.
            resolve_names masses rest
              (bind_shared r oid (True, nm) (obj\<lparr>mass := m, object_id := oid\<rparr>)))
      | None \<Rightarrow>
          (case res_catalog r nm of
             Some obj \<Rightarrow>
               then_do (subscript (map_of masses) oid) (\<lambda>m.
                 resolve_names masses rest
                   (bind_shared r oid (False, nm) (obj\<lparr>mass := m, object_id := oid\<rparr>)))
           | None \<Rightarrow> resolve_names masses rest (r\<lparr>need_to_derive := need_to_derive r @ [oid]\<rparr>)))"

text \<open>Python's \<^verbatim>\<open>round(x, 3)\<close>, on a real number: to the nearest thousandth, ties to even.\<close>

definition round_half_even :: "real \<Rightarrow> int" where
  "round_half_even r =
     (let f = \<lfloor>r\<rfloor> in
      if r - real_of_int f < 1 / 2 then f
      else if 1 / 2 < r - real_of_int f then f + 1
      else if even f then f else f + 1)"

definition round3 :: "real \<Rightarrow> real" where
  "round3 x = real_of_int (round_half_even (x * 1000)) / 1000"

text \<open>\<^verbatim>\<open>max(set(materials), key=materials.count)\<close>.\<close>

definition most_common :: "('seg, 'x) ext_scheme \<Rightarrow> AudioMaterial list \<Rightarrow> error + AudioMaterial" where
  "most_common X materials = py_max (\<lambda>m. real (count_list materials m)) (set_order X materials)"

text \<open>
  The values from which an object is derived: lines 948 to 967. The comprehension for
  \<^verbatim>\<open>objects_in_same_category\<close> runs over all of \<^verbatim>\<open>categories\<close>, the object itself included,
  and the lists of the first branch are those of all \<^verbatim>\<open>current_values\<close>.
\<close>

fun mass_neighbours ::
  "(int \<times> ObjectAudioStatic) list \<Rightarrow> (int \<times> real) list \<Rightarrow> int \<Rightarrow> (int \<times> real) list
    \<Rightarrow> error + ObjectAudioStatic list" where
  "mass_neighbours sad masses oid [] = Inr []"
| "mass_neighbours sad masses oid ((m_id, m) # rest) =
     (if m_id = oid \<or> map_of sad m_id = None then mass_neighbours sad masses oid rest
      else
        then_do (subscript (map_of masses) oid) (\<lambda>m0.
          if m0 = 0 then Inl ZeroDivisionError
          else
            then_do (mass_neighbours sad masses oid rest) (\<lambda>others.
              if \<bar>m / m0\<bar> < 15 / 10
              then then_do (subscript (map_of sad) m_id) (\<lambda>a. Inr (a # others))
              else Inr others)))"

definition comparable_values ::
  "static_dicts \<Rightarrow> (int \<times> ObjectAudioStatic) list \<Rightarrow> int \<Rightarrow> error + ObjectAudioStatic list" where
  "comparable_values d sad oid =
     then_do (subscript (map_of (categories d)) oid) (\<lambda>cat.
       let objects_in_same_category = filter (\<lambda>other. map_of (categories d) other = Some cat)
                                        (map fst (categories d))
       in if length objects_in_same_category > 0 then Inr (map snd sad)
          else mass_neighbours sad (object_masses d) oid (object_masses d))"

text \<open>Lines 968 to 987: the derived record of one object.\<close>

definition derive_object ::
  "('seg, 'x) ext_scheme \<Rightarrow> static_dicts \<Rightarrow> (int \<times> ObjectAudioStatic) list \<Rightarrow> int
    \<Rightarrow> error + ObjectAudioStatic" where
  "derive_object X d sad oid =
     then_do (comparable_values d sad oid) (\<lambda>vals.
       let amps = map amp vals;
           materials = map material vals;
           resonances = map resonance vals;
           sizes = map size_bucket vals
       in then_do
            (if length amps = 0
             then Inr (DEFAULT_AMP, DEFAULT_MATERIAL, DEFAULT_RESONANCE, DEFAULT_SIZE)
             else then_do (most_common X materials) (\<lambda>mat.
                    Inr (round3 (sum_list amps / real (length amps)), mat,
                         round3 (sum_list resonances / real (length resonances)),
                         trunc_int (real_of_int (sum_list sizes) / real (length sizes)))))
            (\<lambda>(a, mat, r, sz).
          then_do (subscript (map_of (names d)) oid) (\<lambda>nm.
          then_do (subscript (map_of (object_masses d)) oid) (\<lambda>m.
          then_do (subscript (map_of (object_bouncinesses d)) oid) (\<lambda>b.
            Inr \<lparr>name = nm, object_id = oid, amp = a, mass = m, material = mat,
                 bounciness = b, resonance = r, size_bucket = sz\<rparr>)))))"

fun derive_all ::
  "('seg, 'x) ext_scheme \<Rightarrow> static_dicts \<Rightarrow> (int \<times> ObjectAudioStatic) list \<Rightarrow> int list
    \<Rightarrow> (int \<times> ObjectAudioStatic) list \<Rightarrow> error + (int \<times> ObjectAudioStatic) list" where
  "derive_all X d sad [] derived_data = Inr derived_data"
| "derive_all X d sad (oid # rest) derived_data =
     then_do (derive_object X d sad oid) (\<lambda>obj.
       derive_all X d sad rest (AList.update oid obj derived_data))"

definition robot_joint_static :: "int \<times> string \<times> real \<Rightarrow> int \<times> ObjectAudioStatic" where
  "robot_joint_static j =
     (case j of (joint_id, nm, m) \<Rightarrow>
        (joint_id, \<lparr>name = nm, object_id = joint_id, amp = DEFAULT_AMP, mass = m,
                    material = ROBOT_JOINT_MATERIAL, bounciness = ROBOT_JOINT_BOUNCINESS,
                    resonance = DEFAULT_RESONANCE, size_bucket = DEFAULT_SIZE\<rparr>))"

definition update_all :: "('k \<times> 'v) list \<Rightarrow> ('k \<times> 'v) list \<Rightarrow> ('k \<times> 'v) list" where
  "update_all new d = fold (\<lambda>(k, v). AList.update k v) new d"

definition cache_static_data ::
  "('seg, 'x) ext_scheme \<Rightarrow> 'seg PyImpact \<Rightarrow> OutputData list \<Rightarrow> error + 'seg PyImpact" where
  "cache_static_data X st resp =
     (let d = read_static (butlast resp)
                \<lparr>categories = [], names = [], robot_joints = [], object_masses = [],
                 object_bouncinesses = []\<rparr>
      in then_do (resolve_names (object_masses d) (names d)
                    \<lparr>res_sad = static_audio_data st, res_src = Map.empty,
                     res_overrides = static_audio_data_overrides st, res_catalog = catalog X,
                     need_to_derive = []\<rparr>) (\<lambda>r.
         then_do (derive_all X d (res_sad r) (need_to_derive r) []) (\<lambda>derived_data.
           Inr (st\<lparr>static_audio_data_overrides := res_overrides r,
                   static_audio_data :=
                     update_all (map robot_joint_static (robot_joints d))
                       (update_all derived_data (res_sad r))\<rparr>))))"

subsection \<open>The facade: \<^verbatim>\<open>on_send\<close>\<close>

fun material_name :: "AudioMaterial \<Rightarrow> string" where
  "material_name ceramic = ''ceramic''"
| "material_name wood_hard = ''wood_hard''"
| "material_name wood_medium = ''wood_medium''"
| "material_name wood_soft = ''wood_soft''"
| "material_name metal = ''metal''"
| "material_name glass = ''glass''"
| "material_name paper = ''paper''"
| "material_name cardboard = ''cardboard''"
| "material_name leather = ''leather''"
| "material_name fabric = ''fabric''"
| "material_name plastic_hard = ''plastic_hard''"
| "material_name plastic_soft_foam = ''plastic_soft_foam''"
| "material_name rubber = ''rubber''"
| "material_name stone = ''stone''"

text \<open>\<^verbatim>\<open>str\<close> of an integer.\<close>

fun str_nat :: "nat \<Rightarrow> string" where
  "str_nat n = (if n < 10 then [char_of (48 + n)] else str_nat (n div 10) @ [char_of (48 + n mod 10)])"

definition str_int :: "int \<Rightarrow> string" where
  "str_int i = (if i < 0 then CHR ''-'' # str_nat (nat (- i)) else str_nat (nat i))"

definition material_size :: "ObjectAudioStatic \<Rightarrow> string" where
  "material_size a = material_name (material a) @ ''_'' @ str_int (size_bucket a)"

definition get_floor_material_name :: "'seg PyImpact \<Rightarrow> string" where
  "get_floor_material_name st = material_name (floor_material st) @ ''_'' @ str_int FLOOR_SIZE"

text \<open>The body of the loop of \<^verbatim>\<open>on_send\<close> for one key of \<^verbatim>\<open>_collision_events\<close>.\<close>

definition event_command ::
  "('seg, 'x) ext_scheme \<Rightarrow> 'seg PyImpact \<Rightarrow> 8 word list \<Rightarrow> int \<Rightarrow> CollisionAudioEvent
    \<Rightarrow> error + (Command option \<times> 'seg PyImpact \<times> 8 word list)" where
  "event_command X st urandom oid ev =
     (let make = (if collision_type ev = impact then Some (get_impact_sound_command X)
                  else if collision_type ev = scrape then Some (get_scrape_sound_command X)
                  else None)
      in case make of
           None \<Rightarrow> Inr (None, st, urandom)
         | Some sound_command \<Rightarrow>
             (case secondary_id ev of
                None \<Rightarrow>
                  then_do (subscript (map_of (static_audio_data st)) oid) (\<lambda>audio.
                    sound_command st urandom (ev_velocity ev) (points (collision ev))
                      (normals (collision ev))
                      oid (material_size audio) (amp audio) (mass audio)
                      None (get_floor_material_name st) FLOOR_AMP FLOOR_MASS (resonance audio))
              | Some sid \<Rightarrow>
                  then_do (subscript (map_of (static_audio_data st)) (primary_id ev)) (\<lambda>target_audio.
                  then_do (subscript (map_of (static_audio_data st)) sid) (\<lambda>other_audio.
                    sound_command st urandom (ev_velocity ev) (points (collision ev))
                      (normals (collision ev))
                      (object_id target_audio) (material_size target_audio) (amp target_audio)
                      (mass target_audio)
                      (Some (object_id other_audio)) (material_size other_audio) (amp other_audio)
                      (mass other_audio) (resonance target_audio)))))"

text \<open>The loop: the commands that are not \<open>None\<close>, in the order of the dict.\<close>

fun event_commands ::
  "('seg, 'x) ext_scheme \<Rightarrow> (int \<times> CollisionAudioEvent) list \<Rightarrow> 'seg PyImpact \<Rightarrow> 8 word list
    \<Rightarrow> error + ('seg PyImpact \<times> Command list \<times> 8 word list)" where
  "event_commands X [] st urandom = Inr (st, [], urandom)"
| "event_commands X ((oid, ev) # rest) st urandom =
     then_do (event_command X st urandom oid ev) (\<lambda>(command, st1, urandom1).
     then_do (event_commands X rest st1 urandom1) (\<lambda>(st2, cmds, urandom2).
       Inr (st2, (case command of None \<Rightarrow> cmds | Some c \<Rightarrow> c # cmds), urandom2)))"

definition on_send ::
  "('seg, 'x) ext_scheme \<Rightarrow> 'seg PyImpact \<Rightarrow> 8 word list \<Rightarrow> OutputData list
    \<Rightarrow> error + ('seg PyImpact \<times> Command list \<times> 8 word list)" where
  "on_send X st urandom resp =
     then_do (if \<not> cached_audio_info st
              then cache_static_data X (st\<lparr>cached_audio_info := True\<rparr>) resp
              else Inr st) (\<lambda>st1.
     then_do (get_collision_types X st1 resp) (\<lambda>st2.
       event_commands X (collision_events st2) st2 urandom))"

text \<open>A run of the engine over the frames of a telemetry sequence, and its command stream.\<close>

fun run ::
  "('seg, 'x) ext_scheme \<Rightarrow> 'seg PyImpact \<Rightarrow> 8 word list \<Rightarrow> OutputData list list
    \<Rightarrow> error + ('seg PyImpact \<times> Command list \<times> 8 word list)" where
  "run X st urandom [] = Inr (st, [], urandom)"
| "run X st urandom (resp # frames) =
     then_do (on_send X st urandom resp) (\<lambda>(st1, cmds, urandom1).
     then_do (run X st1 urandom1 frames) (\<lambda>(st2, cmds', urandom2).
       Inr (st2, cmds @ cmds', urandom2)))"

subsection \<open>\<^verbatim>\<open>reset\<close>\<close>

definition reset :: "'seg PyImpact \<Rightarrow> real \<Rightarrow> error + 'seg PyImpact" where
  "reset st new_initial_amp =
     (if \<not> (0 < new_initial_amp \<and> new_initial_amp < 1) then Inl AssertionError
      else Inr (st\<lparr>cached_audio_info := False,
                   initialized := False,
                   static_audio_data := [],
                   object_modes := Map.empty,
                   collision_events := [],
                   scrape_summed_masters := Map.empty,
                   scrape_previous_index := 0,
                   scrape_start_velocities := Map.empty,
                   scrape_events_count := Map.empty\<rparr>))"

subsection \<open>Auxiliary predicates\<close>

text \<open>
  \<open>grouped per evs\<close>: the dict \<open>per\<close> has distinct keys and holds, under each primary, the
  events of \<open>evs\<close> with that primary, in their order. \<open>per_ok\<close>: every event is under its
  own primary.
\<close>

definition grouped :: "(int \<times> CollisionAudioEvent list) list \<Rightarrow> CollisionAudioEvent list \<Rightarrow> bool" where
  "grouped per evs \<longleftrightarrow>
     distinct (map fst per) \<and>
     (\<forall>k. map_of per k =
        (if filter (\<lambda>e. primary_id e = k) evs = [] then None
         else Some (filter (\<lambda>e. primary_id e = k) evs)))"

definition per_ok :: "(int \<times> CollisionAudioEvent list) list \<Rightarrow> bool" where
  "per_ok per \<longleftrightarrow> distinct (map fst per) \<and> (\<forall>(k, es) \<in> set per. \<forall>e \<in> set es. primary_id e = k)"

text \<open>
  \<open>modes_frame st st'\<close>: the state \<open>st'\<close> differs from \<open>st\<close> at most in the collision info of
  the pairs, the generator and the log.
\<close>

definition modes_frame :: "'seg PyImpact \<Rightarrow> 'seg PyImpact \<Rightarrow> bool" where
  "modes_frame st st' \<longleftrightarrow>
     (\<exists>om nv lg. st' = st\<lparr>object_modes := om, normal_variates := nv,
                                mode_properties_log := lg\<rparr>)"

subsection \<open>Example inputs\<close>

text \<open>
  An instance of the collaborators, for the examples below. Its event constructor takes
  the lighter object as the primary, the length of the velocity as the magnitude, and an
  event as an impact when the primary had no contact area in the previous frame and as a
  scrape otherwise; the impulse response of a mode set is taken to be its list of powers.
  No example reaches the audio library, whose functions are trivial here.
\<close>

definition demo_mk_event ::
  "CollisionData \<Rightarrow> ObjectAudioStatic \<Rightarrow> Rigidbody \<Rightarrow> (ObjectAudioStatic \<times> Rigidbody) option
    \<Rightarrow> (int \<times> real) list \<Rightarrow> CollisionAudioEvent" where
  "demo_mk_event c s0 d0 other previous_areas =
     (let prim = (case other of None \<Rightarrow> s0
                               | Some (s1, d1) \<Rightarrow> if mass s1 < mass s0 then s1 else s0);
          sec = (case other of None \<Rightarrow> None
                             | Some (s1, d1) \<Rightarrow> Some (if mass s1 < mass s0 then s0 else s1));
          v = (case c of CollisionObjObj cl \<Rightarrow> relative_velocity cl
                       | CollisionObjEnv ce \<Rightarrow> velocity d0)
      in \<lparr>primary_id = object_id prim,
          secondary_id = map_option object_id sec,
          collision_type = (if norm3 v = 0 then none
                            else if map_of previous_areas (object_id prim) = None then impact
                            else scrape),
          ev_velocity = v,
          magnitude = norm3 v,
          area = real (length (points c)),
          collision = c\<rparr>)"

definition demo_ext :: "(int list) ext" where
  "demo_ext =
     \<lparr>mk_event = demo_mk_event,
      sum_modes = (\<lambda>m r. powers m),
      base64_sound = (\<lambda>xs. \<lparr>snd_bytes = [], wav_str = [], snd_length = 2 * length xs\<rparr>),
      b64encode = (\<lambda>bs. []),
      catalog = [''chair'' \<mapsto> \<lparr>name = ''chair'', object_id = 0, amp = 1 / 2, mass = 4,
                                 material = wood_medium, bounciness = 1 / 2,
                                 resonance = 45 / 100, size_bucket = 3\<rparr>],
      set_order = remdups,
      scrape_surface = [],
      np_interp = (\<lambda>x xp fp. []),
      gaussian_filter1d = (\<lambda>xs sigma. xs),
      tobytes = (\<lambda>xs. []),
      int16_tobytes = (\<lambda>xs. []),
      seg_of_bytes = (\<lambda>bs. []),
      seg_silent = (\<lambda>ms. []),
      apply_gain = (\<lambda>seg db. seg),
      fade_in = (\<lambda>seg ms. seg),
      fade_out = (\<lambda>seg ms. seg),
      get_array_of_samples = (\<lambda>seg. []),
      seg_append = (\<lambda>a b. a @ b),
      seg_repeat = (\<lambda>a n. concat (replicate n a)),
      overlay = (\<lambda>a b. a),
      seg_len = (\<lambda>seg. 0),
      seg_slice = (\<lambda>seg i j. seg),
      raw_data = (\<lambda>seg. [])\<rparr>"

definition demo_object :: "int \<Rightarrow> real \<Rightarrow> real \<Rightarrow> ObjectAudioStatic" where
  "demo_object i a m =
     \<lparr>name = ''cube'', object_id = i, amp = a, mass = m, material = wood_medium,
      bounciness = 1 / 2, resonance = 45 / 100, size_bucket = 1\<rparr>"

definition demo_distribution :: ModeDistribution where
  "demo_distribution =
     \<lparr>cf = [440, 440, 440, 440, 440, 440, 440, 440, 440, 440],
      op = [1, - 2, 0, 0, 0, 0, 0, 0, 0, 0],
      rt = [5 / 1000, 5 / 1000, 5 / 1000, 5 / 1000, 5 / 1000,
            5 / 1000, 5 / 1000, 5 / 1000, 5 / 1000, 5 / 1000]\<rparr>"

text \<open>
  An engine as \<^verbatim>\<open>__init__\<close> leaves it, with two objects in the registry and a generator
  whose next hundred variates are zero.
\<close>

definition demo_engine :: "(int list) PyImpact" where
  "demo_engine =
     \<lparr>initial_amp = 1 / 2, prevent_distortion = True, logging = False,
      object_modes = Map.empty, resonance_audio = False, floor_material = wood_medium,
      material_data = [''wood_medium_1'' \<mapsto> demo_distribution,
                       ''wood_medium_4'' \<mapsto> demo_distribution],
      mode_properties_log = Map.empty, static_audio_data_overrides = Map.empty,
      collision_events = [], cached_audio_info = True,
      static_audio_data = [(1, demo_object 1 (1 / 2) (6 / 100)), (2, demo_object 2 (1 / 20) 3)],
      scrape_summed_masters = Map.empty, scrape_previous_index = 0,
      scrape_start_velocities = Map.empty, scrape_events_count = Map.empty,
      initialized = True,
      normal_variates = replicate 100 0\<rparr>"

definition demo_body :: "vec3 \<Rightarrow> Rigidbody" where
  "demo_body v = \<lparr>velocity = v, angular_velocity = (0, 0, 0), sleeping = False\<rparr>"

definition demo_collision :: "int \<Rightarrow> int \<Rightarrow> vec3 \<Rightarrow> Collision" where
  "demo_collision a b v =
     \<lparr>collider_id = a, collidee_id = b, coll_state = ''enter'', coll_points = [(0, 0, 0)],
      coll_normals = [(0, 1, 0)], relative_velocity = v\<rparr>"

definition demo_env_collision :: "int \<Rightarrow> EnvironmentCollision" where
  "demo_env_collision a =
     \<lparr>env_object_id = a, env_state = ''enter'', env_points = [(0, 0, 0)],
      env_normals = [(0, 1, 0)], env_floor = True\<rparr>"

text \<open>
  A frame in which object 1 meets object 2 twice, at relative speeds 3 and 6, and the
  floor at speed 1. The last element of a frame is not a data record.
\<close>

definition demo_frame :: "OutputData list" where
  "demo_frame =
     [Rigi [(1, demo_body (0, - 1, 0)), (2, demo_body (0, 0, 0))],
      Coll (demo_collision 1 2 (0, - 3, 0)),
      Coll (demo_collision 2 1 (0, - 6, 0)),
      Enco (demo_env_collision 1),
      OtherData]"

text \<open>A frame with a collision of object 7, which the registry does not hold.\<close>

definition demo_frame_unknown :: "OutputData list" where
  "demo_frame_unknown =
     [Rigi [(1, demo_body (0, - 1, 0)), (7, demo_body (0, - 1, 0))],
      Enco (demo_env_collision 7),
      Enco (demo_env_collision 1),
      OtherData]"

text \<open>The modes that the engine above samples from either material: every variate is zero.\<close>

definition demo_modes :: Modes where
  "demo_modes =
     \<lparr>frequencies = [440, 440, 440, 440, 440, 440, 440, 440, 440, 440],
      powers = [1, - 2, 0, 0, 0, 0, 0, 0, 0, 0],
      decay_times = [5, 5, 5, 5, 5, 5, 5, 5, 5, 5]\<rparr>"

text \<open>
  An engine before its first frame, and a first frame with two objects: a chair, which
  the catalog holds, of category chair and mass 4, and a blob, which neither the
  overrides nor the catalog hold, of category toy and mass 400.
\<close>

definition demo_fresh_engine :: "(int list) PyImpact" where
  "demo_fresh_engine = demo_engine\<lparr>cached_audio_info := False, static_audio_data := []\<rparr>"

definition demo_static_frame :: "OutputData list" where
  "demo_static_frame =
     [Segm [(1, ''Chair'', ''chair''), (2, ''Blob'', ''toy'')],
      Srig [(1, 4, 5 / 10), (2, 400, 3 / 10)],
      OtherData]"

text \<open>
  An audio library in which a segment is its list of samples, \<^verbatim>\<open>apply_gain\<close> of \<open>- 20\<close> dB
  divides every sample by ten, and a fade leaves a one-sample segment as it is.
\<close>

definition demo_gain_ext :: "(int list) ext" where
  "demo_gain_ext =
     demo_ext\<lparr>seg_of_bytes := (\<lambda>bs. [1000]),
              apply_gain := (\<lambda>seg db. map (\<lambda>v. v div 10) seg)\<rparr>"

text \<open>
  The engine in the middle of a scrape of object 1 on object 2: three chunks so far, on a
  master of two samples.
\<close>

definition demo_scraping_engine :: "(int list) PyImpact" where
  "demo_scraping_engine =
     demo_engine\<lparr>scrape_summed_masters := [(1, Some 2) \<mapsto> [0, 0]],
                 scrape_events_count := [(1, Some 2) \<mapsto> 3],
                 scrape_start_velocities := [(1, Some 2) \<mapsto> 1]\<rparr>"

section \<open>Properties\<close>

subsection \<open>Sequencing\<close>

lemma then_do_simps [simp]:
  "then_do (Inl e) f = Inl e"
  "then_do (Inr v) f = f v"
  by (simp_all add: then_do_def)

lemma then_do_Inr_iff: "then_do r f = Inr y \<longleftrightarrow> (\<exists>v. r = Inr v \<and> f v = Inr y)"
  by (cases r) simp_all

subsection \<open>The significant event of each primary\<close>

lemma max_from_mem: "max_from f b xs \<in> set (b # xs)"
  by (induction xs arbitrary: b) auto

lemma max_from_ge: "\<forall>y \<in> set (b # xs). f y \<le> f (max_from f b xs)"
proof (induction xs arbitrary: b)
  case Nil
  then show ?case by simp
next
  case (Cons x xs)
  show ?case
  proof (cases "f b < f x")
    case True
    from Cons.IH[of x] have ih: "\<forall>y \<in> set (x # xs). f y \<le> f (max_from f x xs)" .
    then have "f x \<le> f (max_from f x xs)" by simp
    with True have "f b \<le> f (max_from f x xs)" by simp
    with ih True show ?thesis by simp
  next
    case False
    from Cons.IH[of b] have ih: "\<forall>y \<in> set (b # xs). f y \<le> f (max_from f b xs)" .
    then have "f b \<le> f (max_from f b xs)" by simp
    with False have "f x \<le> f (max_from f b xs)" by simp
    with ih False show ?thesis by simp
  qed
qed

lemma py_max_Inr:
  assumes "py_max f xs = Inr e"
  shows "e \<in> set xs \<and> (\<forall>y \<in> set xs. f y \<le> f e)"
proof (cases xs)
  case Nil
  with assms show ?thesis by simp
next
  case (Cons x xs')
  with assms have e: "e = max_from f x xs'" by simp
  show ?thesis unfolding e Cons using max_from_mem[of f x xs'] max_from_ge[of x xs' f] by blast
qed

lemma grouped_Nil: "grouped [] []"
  by (simp add: grouped_def)

lemma grouped_append_event:
  assumes "grouped per evs"
  shows "grouped (append_event per ev) (evs @ [ev])"
proof (cases "map_of per (primary_id ev)")
  case None
  then have notin: "primary_id ev \<notin> fst ` set per" by (simp add: map_of_eq_None_iff)
  from None assms have empty: "filter (\<lambda>e. primary_id e = primary_id ev) evs = []"
    by (auto simp: grouped_def split: if_splits)
  have ae: "append_event per ev = per @ [(primary_id ev, [ev])]"
    using None by (simp add: append_event_def)
  show ?thesis
    unfolding ae grouped_def
  proof (intro conjI allI)
    show "distinct (map fst (per @ [(primary_id ev, [ev])]))"
      using assms notin by (simp add: grouped_def)
  next
    fix k
    show "map_of (per @ [(primary_id ev, [ev])]) k =
        (if filter (\<lambda>e. primary_id e = k) (evs @ [ev]) = [] then None
         else Some (filter (\<lambda>e. primary_id e = k) (evs @ [ev])))"
    proof (cases "k = primary_id ev")
      case True
      then show ?thesis using None empty by (simp add: map_add_def map_of_append)
    next
      case False
      then show ?thesis using assms by (auto simp: grouped_def map_of_append map_add_def split: option.splits)
    qed
  qed
next
  case (Some es)
  with assms have es: "es = filter (\<lambda>e. primary_id e = primary_id ev) evs"
    by (auto simp: grouped_def split: if_splits)
  have ae: "append_event per ev = AList.update (primary_id ev) (es @ [ev]) per"
    using Some by (simp add: append_event_def)
  show ?thesis
    unfolding ae grouped_def
  proof (intro conjI allI)
    show "distinct (map fst (AList.update (primary_id ev) (es @ [ev]) per))"
      using assms by (simp add: grouped_def distinct_update)
  next
    fix k
    show "map_of (AList.update (primary_id ev) (es @ [ev]) per) k =
        (if filter (\<lambda>e. primary_id e = k) (evs @ [ev]) = [] then None
         else Some (filter (\<lambda>e. primary_id e = k) (evs @ [ev])))"
      using assms es by (auto simp: grouped_def update_conv')
  qed
qed

lemma grouped_foldl:
  "grouped per evs0 \<Longrightarrow> grouped (foldl append_event per evs) (evs0 @ evs)"
proof (induction evs arbitrary: per evs0)
  case Nil
  then show ?case by simp
next
  case (Cons ev evs)
  from Cons.prems have "grouped (append_event per ev) (evs0 @ [ev])"
    by (rule grouped_append_event)
  from Cons.IH[OF this] show ?case by simp
qed

lemma grouped_per_ok: "grouped per evs \<Longrightarrow> per_ok per"
  unfolding grouped_def per_ok_def
proof (intro conjI ballI, goal_cases)
  case 1 then show ?case by simp
next
  case (2 x)
  obtain k es where x: "x = (k, es)" by (cases x)
  from 2 have d: "distinct (map fst per)" by simp
  from 2 x have "(k, es) \<in> set per" by simp
  with d have "map_of per k = Some es" by simp
  with 2 have "es = filter (\<lambda>e. primary_id e = k) evs" by (auto split: if_splits)
  then show ?case unfolding x by auto
qed

lemma significant_events_distinct:
  "distinct (map fst ce) \<Longrightarrow> distinct (map fst (significant_events per ce))"
  by (induction per ce rule: significant_events.induct)
     (auto simp: Let_def distinct_update split: sum.splits)

lemma significant_events_map_of:
  assumes "per_ok per"
  shows "map_of (significant_events per ce) k =
     (case map_of per k of
        None \<Rightarrow> map_of ce k
      | Some es \<Rightarrow> (case py_max magnitude (filter significant es) of
                     Inl _ \<Rightarrow> map_of ce k | Inr e \<Rightarrow> Some e))"
  using assms
proof (induction per ce rule: significant_events.induct)
  case (1 ce)
  then show ?case by simp
next
  case (2 pid cands per ce)
  from "2.prems" have ok: "per_ok per" and notin: "pid \<notin> fst ` set per"
    and prim: "\<forall>e \<in> set cands. primary_id e = pid"
    by (auto simp: per_ok_def)
  from notin have none: "map_of per pid = None" by (simp add: map_of_eq_None_iff)
  show ?case
  proof (cases "filter significant cands")
    case Nil
    then show ?thesis using "2.IH"(3) ok none by (auto simp: Let_def split: option.splits)
  next
    case (Cons x xs)
    let ?e = "max_from magnitude x xs"
    have "?e \<in> set (filter significant cands)" unfolding Cons by (rule max_from_mem)
    then have pe: "primary_id ?e = pid" using prim by simp
    have "map_of (significant_events per (AList.update (primary_id ?e) ?e ce)) k =
      (case map_of per k of
        None \<Rightarrow> map_of (AList.update (primary_id ?e) ?e ce) k
      | Some es \<Rightarrow> (case py_max magnitude (filter significant es) of
                     Inl _ \<Rightarrow> map_of (AList.update (primary_id ?e) ?e ce) k | Inr e \<Rightarrow> Some e))"
      using "2.IH"(2)[of "filter significant cands" ?e] Cons ok by simp
    then show ?thesis using Cons pe none
      by (auto simp: Let_def update_conv' split: option.splits sum.splits)
  qed
qed


lemma get_collision_types_Inr:
  assumes "get_collision_types X st resp = Inr st'"
  shows "\<exists>evs. candidates X st resp = evs \<and>
           frame_events X (static_audio_data st) (rigidbody_data (butlast resp) Map.empty)
             (map (\<lambda>(k, v). (k, area v)) (collision_events st)) (butlast resp) = Inr evs \<and>
           collision_events st' = significant_events (foldl append_event [] evs) []"
  using assms
  by (auto simp: get_collision_types_def candidates_def Let_def split: sum.splits)

text \<open>
  C1. After \<^verbatim>\<open>_get_collision_types\<close> has classified a frame, the event dict has at most one
  event for each primary id (its keys are distinct and each event is stored under its own
  primary id). The event of a primary is one of that primary's candidates of the frame
  with a positive magnitude and a type other than \<open>none\<close>, and no such candidate of that
  primary has a greater magnitude. Every primary that has such a candidate has an event.
\<close>

theorem significant_event_per_primary:
  assumes "get_collision_types X st resp = Inr st'"
  shows "distinct (map fst (collision_events st')) \<and>
     (\<forall>(k, e) \<in> set (collision_events st').
        primary_id e = k \<and> e \<in> set (candidates X st resp) \<and>
        0 < magnitude e \<and> collision_type e \<noteq> none \<and>
        (\<forall>c \<in> set (candidates X st resp).
           primary_id c = k \<and> 0 < magnitude c \<and> collision_type c \<noteq> none
           \<longrightarrow> magnitude c \<le> magnitude e)) \<and>
     (\<forall>c \<in> set (candidates X st resp).
        0 < magnitude c \<and> collision_type c \<noteq> none
        \<longrightarrow> primary_id c \<in> fst ` set (collision_events st'))"
proof -
  define evs where "evs = candidates X st resp"
  define per where "per = foldl append_event [] evs"
  from get_collision_types_Inr[OF assms]
  have ce: "collision_events st' = significant_events per []"
    by (simp add: evs_def per_def)
  have g: "grouped per evs"
    using grouped_foldl[OF grouped_Nil, of evs] by (simp add: per_def)
  then have ok: "per_ok per" by (rule grouped_per_ok)
  have per_k: "map_of per k =
        (if filter (\<lambda>e. primary_id e = k) evs = [] then None
         else Some (filter (\<lambda>e. primary_id e = k) evs))" for k
    using g by (simp add: grouped_def)
  have d: "distinct (map fst (collision_events st'))"
    unfolding ce by (rule significant_events_distinct) simp
  have look: "map_of (collision_events st') k =
     (case map_of per k of
        None \<Rightarrow> None
      | Some es \<Rightarrow> (case py_max magnitude (filter significant es) of
                     Inl _ \<Rightarrow> None | Inr e \<Rightarrow> Some e))" for k
    unfolding ce using significant_events_map_of[OF ok, of "[]" k]
    by (simp split: option.splits sum.splits)
  have best: "primary_id e = k \<and> e \<in> set evs \<and> 0 < magnitude e \<and> collision_type e \<noteq> none \<and>
        (\<forall>c \<in> set evs. primary_id c = k \<and> 0 < magnitude c \<and> collision_type c \<noteq> none
           \<longrightarrow> magnitude c \<le> magnitude e)"
    if "(k, e) \<in> set (collision_events st')" for k e
  proof -
    from that d have "map_of (collision_events st') k = Some e" by simp
    with look[of k] per_k[of k]
    have pm: "py_max magnitude (filter significant (filter (\<lambda>e. primary_id e = k) evs)) = Inr e"
      by (auto split: option.splits sum.splits if_splits)
    from py_max_Inr[OF pm] show ?thesis by (auto simp: significant_def)
  qed
  have complete: "primary_id c \<in> fst ` set (collision_events st')"
    if "c \<in> set evs" "0 < magnitude c" "collision_type c \<noteq> none" for c
  proof -
    let ?es = "filter (\<lambda>e. primary_id e = primary_id c) evs"
    from that have mem: "c \<in> set (filter significant ?es)" by (simp add: significant_def)
    from that(1) have "c \<in> set ?es" by simp
    then have ne: "?es \<noteq> []" by (metis empty_iff empty_set)
    from mem have "filter significant ?es \<noteq> []" by (metis empty_iff empty_set)
    then obtain x xs where "filter significant ?es = x # xs"
      by (meson neq_Nil_conv)
    then have "py_max magnitude (filter significant ?es) = Inr (max_from magnitude x xs)" by simp
    with look[of "primary_id c"] per_k[of "primary_id c"] ne
    have "map_of (collision_events st') (primary_id c) = Some (max_from magnitude x xs)" by simp
    then show ?thesis by (metis domI dom_map_of_conv_image_fst)
  qed
  from d best complete show ?thesis unfolding evs_def by blast
qed

theorem significant_event_per_primary_witness:
  "\<exists>st'. get_collision_types demo_ext demo_engine demo_frame = Inr st' \<and>
         distinct (map fst (collision_events st')) \<and>
         map (\<lambda>(k, e). (k, secondary_id e, ev_velocity e, collision_type e)) (collision_events st')
           = [(1, Some 2, (0, - 6, 0), impact)]"
proof -
  have "\<exists>st'. get_collision_types demo_ext demo_engine demo_frame = Inr st' \<and>
         map (\<lambda>(k, e). (k, secondary_id e, ev_velocity e, collision_type e)) (collision_events st')
           = [(1, Some 2, (0, - 6, 0), impact)]"
    by (simp add: get_collision_types_def demo_frame_def demo_engine_def demo_ext_def
        obj_obj_event_def obj_env_event_def subscript_def demo_collision_def
        demo_env_collision_def demo_body_def demo_object_def demo_mk_event_def norm3_def
        append_event_def significant_def Let_def)
  then obtain st' where
    r: "get_collision_types demo_ext demo_engine demo_frame = Inr st'" and
    v: "map (\<lambda>(k, e). (k, secondary_id e, ev_velocity e, collision_type e)) (collision_events st')
           = [(1, Some 2, (0, - 6, 0), impact)]"
    by (elim exE conjE)
  from significant_event_per_primary[OF r] have "distinct (map fst (collision_events st'))"
    by (rule conjunct1)
  with r v show ?thesis by (intro exI[of _ st'] conjI)
qed

subsection \<open>A collision of an object that the registry does not hold\<close>

text \<open>
  C2. The claim is that a collision record of an object without an entry in the static
  registry is skipped and the rest of the frame is processed. In the code the subscript
  \<^verbatim>\<open>self.static_audio_data[collider_id]\<close> raises \<^verbatim>\<open>KeyError\<close>, which nothing catches: on the frame
  below, with a collision of the unknown object 7 and one of the known object 1,
  \<^verbatim>\<open>on_send\<close> ends with the exception and no event is processed.
\<close>

theorem unknown_object_raises:
  "on_send demo_ext demo_engine urandom demo_frame_unknown = Inl KeyError"
  by (simp add: on_send_def get_collision_types_def demo_engine_def demo_frame_unknown_def
      obj_env_event_def subscript_def demo_env_collision_def)

subsection \<open>\<^verbatim>\<open>reset\<close> and the master volume\<close>

text \<open>
  C10. For every argument \<open>0 < a < 1\<close>, \<^verbatim>\<open>reset(a)\<close> succeeds and leaves the engine's
  \<^verbatim>\<open>initial_amp\<close> as it was: the argument is checked and never stored.
\<close>

theorem reset_keeps_initial_amp:
  assumes "0 < a" and "a < 1"
  shows "\<exists>st'. reset st a = Inr st' \<and> initial_amp st' = initial_amp st"
  using assms by (simp add: reset_def)

theorem reset_keeps_initial_amp_witness:
  "\<exists>st'. reset demo_engine (9 / 10) = Inr st' \<and> initial_amp st' = 1 / 2"
  using reset_keeps_initial_amp[of "9 / 10" demo_engine]
  by (simp add: demo_engine_def)

subsection \<open>Derived static data\<close>

lemma lower_demo: "lower ''Chair'' = ''chair''" "lower ''Blob'' = ''blob''"
  by (simp_all add: lower_def lower_char_def char_of_def bit_Suc_0_iff)

text \<open>
  The first branch of the derivation is taken for every object that has a category, the
  object itself being among \<^verbatim>\<open>objects_in_same_category\<close>; its values are those of all
  resolved objects, whatever their category, and the mass branch is never reached.
\<close>

lemma comparable_values_all:
  assumes "map_of (categories d) oid = Some cat"
  shows "comparable_values d sad oid = Inr (map snd sad)"
proof -
  from assms have "oid \<in> fst ` set (categories d)"
    by (metis domI dom_map_of_conv_image_fst)
  with assms have "filter (\<lambda>other. map_of (categories d) other = Some cat) (map fst (categories d)) \<noteq> []"
    by (auto simp: filter_empty_conv)
  with assms show ?thesis by (simp add: comparable_values_def subscript_def)
qed

text \<open>
  C3. The claim is that an object without override or catalog entry takes the aggregate
  of the objects of its category, else of the objects of similar mass, else the defaults.
  In the code the test for objects of the same category counts the object itself and the
  aggregate is taken over every resolved object. On the first frame below the blob shares
  its category with no object and its mass is a hundred times the chair's, so the claim
  gives it the defaults (amp 0.2, plastic_hard, resonance 0.45, size 1); the code gives it
  the chair's amp 0.5, material wood_medium and size 3.
\<close>

theorem derivation_ignores_category:
  "\<exists>st'. cache_static_data demo_ext demo_fresh_engine demo_static_frame = Inr st' \<and>
     map_of (static_audio_data st') 2 =
       Some \<lparr>name = ''blob'', object_id = 2, amp = 1 / 2, mass = 400, material = wood_medium,
             bounciness = 3 / 10, resonance = 45 / 100, size_bucket = 3\<rparr>"
  by (simp add: cache_static_data_def demo_ext_def demo_fresh_engine_def demo_engine_def
      demo_static_frame_def lower_demo bind_shared_def subscript_def derive_object_def
      comparable_values_def most_common_def round3_def round_half_even_def trunc_int_def
      update_all_def Let_def)

subsection \<open>The impact synthesis\<close>

lemma linspace3: "linspace 0 pi 3 = Inr [0, pi / 2, pi]"
  by (simp add: linspace_def eval_nat_numeral)

text \<open>
  C5. The claim is that \<^verbatim>\<open>synth_impact_modes\<close> returns the convolution divided by its peak
  absolute value, so that the peak of the result is 1. The code divides by
  \<^verbatim>\<open>abs(np.max(x))\<close>, the absolute value of the greatest sample. For a mass of 0.06 the force
  pulse has \<open>\<lceil>0.00006 \<sqdot> 44100\<rceil> = 3\<close> samples, \<open>[0, 1, 0]\<close>; with the impulse response
  \<open>[2, - 4, 0, \<dots>]\<close> the convolution is \<open>[0, 2, - 4, 0, \<dots>]\<close>, its greatest sample is 2 and
  the result holds the sample \<open>- 2\<close>: its peak absolute value is 2.
\<close>

theorem synth_divides_by_greatest_sample:
  "synth_impact_modes demo_ext demo_modes demo_modes (6 / 100) (45 / 100)
     = Inr (Some [0, 1, - 2, 0, 0, 0, 0, 0, 0, 0, 0, 0])"
  by (simp add: synth_impact_modes_def demo_ext_def demo_modes_def linspace3 np_max_def Let_def)

subsection \<open>The bounds of the modes\<close>

lemma log10_tenth: "log 10 (1 / 10) = - 1"
  by (simp add: log_divide)

text \<open>
  C8. The claim is that the decay times of every stored mode set stay at or above 1 ms
  after every operation, the rescaling by the amp ratio in \<^verbatim>\<open>make_impact_audio\<close> included.
  The code adds \<^verbatim>\<open>20 * np.log10(amp2re1)\<close>, a number of decibels, to the decay times, which
  are milliseconds. On the first impact of object 1 (amp 0.5) on object 2 (amp 0.05) the
  ratio is 0.1 and the decay times of the primary's modes, sampled as 5 ms, are stored
  as \<open>- 15\<close> ms.
\<close>

theorem rescaling_breaks_decay_bound:
  "\<exists>sound st' i. get_sound demo_ext demo_engine (0, - 1, 0) [(0, 1, 0)]
        1 ''wood_medium_1'' (1 / 2) (6 / 100) (Some 2) ''wood_medium_1'' (1 / 20) 3 (45 / 100)
        = Inr (sound, st') \<and>
     get_info st' (Some 2) 1 = Inr i \<and>
     decay_times (obj1_modes i) = [5, 5, 5, 5, 5, 5, 5, 5, 5, 5] \<and>
     decay_times (obj2_modes i) = [- 15, - 15, - 15, - 15, - 15, - 15, - 15, - 15, - 15, - 15]"
  by (simp add: get_sound_def ensure_info_def set_info_def get_info_def
      get_object_modes_def sample_mode_def item_def np_random_normal_def demo_distribution_def
      eval_nat_numeral
      subscript_def first_impact_def make_impact_audio_def new_CollisionAudioInfo_def
      log10_tenth synth_impact_modes_def demo_ext_def linspace_def
      finish_sound_def scale_sound_def np_max_def
      count_collisions_def demo_engine_def Let_def)

subsection \<open>The gain of the scrape force\<close>

text \<open>
  C7. The claim is that the force segment of a scrape has its gain set to \<open>- 20\<close> dBFS
  before the fades and the convolution. The code calls \<^verbatim>\<open>noise_seg1.apply_gain(...)\<close> and
  drops the segment that the call returns: for every audio library the faded segment is
  that of the force signal as it was, and it is the same for every function put in the
  place of \<^verbatim>\<open>apply_gain\<close>. In the example library a force segment \<open>[1000]\<close> is faded and
  convolved as \<open>[1000]\<close>, not as \<open>[100]\<close>.
\<close>

theorem scrape_gain_dropped:
  "scrape_noise_seg_fade X t_force
     = fade_out X (fade_in X (seg_of_bytes X (tobytes X t_force)) 4) 4 \<and>
   scrape_noise_seg_fade (X\<lparr>apply_gain := g\<rparr>) t_force = scrape_noise_seg_fade X t_force \<and>
   scrape_noise_seg_fade demo_gain_ext t_force = [1000] \<and>
   fade_out demo_gain_ext
     (fade_in demo_gain_ext
        (apply_gain demo_gain_ext (seg_of_bytes demo_gain_ext (tobytes demo_gain_ext t_force))
           SCRAPE_TARGET_DBFS) 4) 4 = [100]"
  by (simp add: scrape_noise_seg_fade_def demo_gain_ext_def demo_ext_def)

subsection \<open>What an impact changes in the engine\<close>

lemma modes_frameI:
  "st' = st\<lparr>object_modes := om, normal_variates := nv, mode_properties_log := lg\<rparr>
    \<Longrightarrow> modes_frame st st'"
  unfolding modes_frame_def by blast

lemma modes_frame_refl: "modes_frame st st"
  by (rule modes_frameI[where om = "object_modes st" and nv = "normal_variates st"
        and lg = "mode_properties_log st"])
     simp

lemma modes_frame_trans:
  assumes "modes_frame a b" and "modes_frame b c"
  shows "modes_frame a c"
proof -
  from assms(1) obtain om nv lg where
    b: "b = a\<lparr>object_modes := om, normal_variates := nv, mode_properties_log := lg\<rparr>"
    unfolding modes_frame_def by blast
  from assms(2) obtain om' nv' lg' where
    c: "c = b\<lparr>object_modes := om', normal_variates := nv', mode_properties_log := lg'\<rparr>"
    unfolding modes_frame_def by blast
  show ?thesis
    by (rule modes_frameI[where om = om' and nv = nv' and lg = lg']) (simp add: b c)
qed

lemma modes_frame_fields:
  assumes "modes_frame st st'"
  shows "prevent_distortion st' = prevent_distortion st"
    and "initial_amp st' = initial_amp st"
    and "logging st' = logging st"
    and "material_data st' = material_data st"
    and "scrape_summed_masters st' = scrape_summed_masters st"
    and "scrape_events_count st' = scrape_events_count st"
    and "scrape_start_velocities st' = scrape_start_velocities st"
    and "scrape_previous_index st' = scrape_previous_index st"
    and "resonance_audio st' = resonance_audio st"
    and "static_audio_data st' = static_audio_data st"
  using assms unfolding modes_frame_def by auto

lemma modes_frame_object_modes: "modes_frame st (st\<lparr>object_modes := om\<rparr>)"
  by (rule modes_frameI[where om = om and nv = "normal_variates st"
        and lg = "mode_properties_log st"]) simp

lemma modes_frame_normal_variates: "modes_frame st (st\<lparr>normal_variates := nv\<rparr>)"
  by (rule modes_frameI[where om = "object_modes st" and nv = nv
        and lg = "mode_properties_log st"]) simp

lemma modes_frame_set_info: "modes_frame st (set_info st a b i)"
  unfolding set_info_def by (rule modes_frame_object_modes)

lemma modes_frame_log_modes: "modes_frame st (log_modes st c i1 i2 m1 m2 a mat1 mat2)"
  unfolding log_modes_def
  by (rule modes_frameI[where om = "object_modes st" and nv = "normal_variates st"]) simp

lemma modes_frame_get_object_modes:
  assumes "get_object_modes st mat = Inr (m, st')"
  shows "modes_frame st st'"
proof -
  from assms obtain zs where "st' = st\<lparr>normal_variates := zs\<rparr>"
    by (auto simp: get_object_modes_def then_do_Inr_iff)
  then show ?thesis by (simp add: modes_frame_normal_variates)
qed

lemma modes_frame_ensure_info:
  assumes "ensure_info st pid pmat pamp sid smat = Inr st'"
  shows "modes_frame st st'"
proof -
  define st1 where "st1 = (if object_modes st sid = None
                 then st\<lparr>object_modes := (object_modes st)(sid \<mapsto> Map.empty)\<rparr> else st)"
  have f1: "modes_frame st st1"
    unfolding st1_def by (simp add: modes_frame_refl modes_frame_object_modes)
  show ?thesis
  proof (cases "case object_modes st1 sid of None \<Rightarrow> True | Some d \<Rightarrow> d pid = None")
    case False
    with assms have "st' = st1" by (simp add: ensure_info_def st1_def[symmetric] Let_def)
    with f1 show ?thesis by simp
  next
    case True
    with assms obtain m_sec sa m_prim sb where
      a: "get_object_modes st1 smat = Inr (m_sec, sa)" and
      b: "get_object_modes sa pmat = Inr (m_prim, sb)" and
      c: "st' = set_info sb sid pid (new_CollisionAudioInfo m_sec m_prim (pamp * initial_amp sb))"
      by (auto simp: ensure_info_def st1_def[symmetric] Let_def then_do_Inr_iff)
    from f1 modes_frame_get_object_modes[OF a] modes_frame_get_object_modes[OF b]
         modes_frame_set_info[of sb sid pid]
    show ?thesis unfolding c by (blast intro: modes_frame_trans)
  qed
qed

lemma modes_frame_make_impact_audio:
  "make_impact_audio X st r m i1 i2 res = Inr (out, st') \<Longrightarrow> modes_frame st st'"
  by (auto simp: make_impact_audio_def then_do_Inr_iff Let_def modes_frame_set_info)

lemma modes_frame_first_impact:
  assumes "first_impact X st r m ns i1 i2 res = Inr (out, st')"
  shows "modes_frame st st'"
proof -
  from assms obtain o1 sa i where
    a: "make_impact_audio X st r m i1 i2 res = Inr (o1, sa)" and
    c: "st' = set_info sa i2 i1 i"
    by (auto simp: first_impact_def then_do_Inr_iff)
  from modes_frame_make_impact_audio[OF a] modes_frame_set_info[of sa i2 i1 i]
  show ?thesis unfolding c by (rule modes_frame_trans)
qed

lemma modes_frame_later_impact:
  assumes "later_impact X st info m ns i1 i2 res = Inr (out, st')"
  shows "modes_frame st st'"
proof -
  from assms obtain zs i where c: "st' = set_info (st\<lparr>normal_variates := zs\<rparr>) i2 i1 i"
    by (auto simp: later_impact_def then_do_Inr_iff Let_def)
  have "modes_frame st (st\<lparr>normal_variates := zs\<rparr>)"
    by (rule modes_frame_normal_variates)
  with modes_frame_set_info[of "st\<lparr>normal_variates := zs\<rparr>" i2 i1 i]
  show ?thesis unfolding c by (rule modes_frame_trans[rotated])
qed


subsection \<open>The peak of an impact sound\<close>

lemma np_max_Inr:
  assumes "np_max xs = Inr p"
  shows "xs \<noteq> [] \<and> p = Max (set xs)"
proof (cases xs)
  case Nil
  with assms show ?thesis by (simp add: np_max_def)
next
  case (Cons x xs')
  with assms have "p = fold max xs' x" by (simp add: np_max_def)
  then show ?thesis unfolding Cons using Max.set_eq_fold[of x xs'] by simp
qed

lemma scale_sound_bound:
  assumes "scale_sound True a samples = Inr out"
  shows "\<exists>b. \<bar>b\<bar> \<le> 99 / 100 \<and> samples \<noteq> [] \<and>
             out = map (\<lambda>v. b * v / Max (set (map abs samples))) samples \<and>
             (\<forall>v \<in> set out. \<bar>v\<bar> \<le> 99 / 100)"
proof -
  define b where "b = (if \<bar>a\<bar> > 99 / 100 then 99 / 100 else a)"
  have b: "\<bar>b\<bar> \<le> 99 / 100" by (simp add: b_def)
  from assms obtain peak where pk: "np_max (map abs samples) = Inr peak"
    and out: "out = map (\<lambda>v. b * v / peak) samples"
    by (auto simp: scale_sound_def b_def Let_def then_do_Inr_iff)
  from np_max_Inr[OF pk] have ne: "samples \<noteq> []" and peak: "peak = Max (set (map abs samples))"
    by auto
  have bound: "\<bar>b * v / peak\<bar> \<le> 99 / 100" if "v \<in> set samples" for v
  proof (cases "peak = 0")
    case True
    then show ?thesis by simp
  next
    case False
    from that have "\<bar>v\<bar> \<le> peak" unfolding peak by (simp add: Max_ge)
    moreover from this have "0 \<le> peak" by linarith
    with False have pos: "0 < peak" by simp
    ultimately have "\<bar>v\<bar> / peak \<le> 1" by (simp add: divide_le_eq_1)
    moreover have "0 \<le> \<bar>v\<bar> / peak" using pos by simp
    ultimately have "\<bar>b\<bar> * (\<bar>v\<bar> / peak) \<le> 99 / 100 * 1"
      using b by (intro mult_mono) auto
    moreover have "\<bar>b * v / peak\<bar> = \<bar>b\<bar> * (\<bar>v\<bar> / peak)"
      using pos by (simp add: abs_mult)
    ultimately show ?thesis by simp
  qed
  show ?thesis
    using b ne out peak bound by (intro exI[of _ b]) auto
qed

lemma finish_sound_Inr:
  assumes "finish_sound st sound m1 m2 a pid pmat sid smat = Inr (out, st')"
  shows "modes_frame st st' \<and>
         (case out of
            None \<Rightarrow> sound = None
          | Some scaled \<Rightarrow>
              (\<exists>samples. sound = Some samples \<and>
                 scale_sound (prevent_distortion st) a samples = Inr scaled))"
proof -
  from assms obtain info where i: "get_info st sid pid = Inr info"
    by (auto simp: finish_sound_def then_do_Inr_iff)
  define st1 where "st1 = (if logging st
                  then log_modes st (info_count info) pid sid m1 m2 a pmat smat else st)"
  have f1: "modes_frame st st1"
    unfolding st1_def by (simp add: modes_frame_refl modes_frame_log_modes)
  show ?thesis
  proof (cases sound)
    case None
    with assms i have "out = None" "st' = st1"
      by (auto simp: finish_sound_def st1_def Let_def)
    with f1 None show ?thesis by simp
  next
    case (Some samples)
    define st2 where "st2 = set_info st1 sid pid (count_collisions info)"
    have f2: "modes_frame st st2"
      unfolding st2_def using f1 modes_frame_set_info by (rule modes_frame_trans)
    from assms i Some obtain scaled where
      sc: "scale_sound (prevent_distortion st2) a samples = Inr scaled" and
      o: "out = Some scaled" and s: "st' = st2"
      by (auto simp: finish_sound_def st1_def[symmetric] st2_def[symmetric] Let_def then_do_Inr_iff)
    from modes_frame_fields(1)[OF f2] sc
    have "scale_sound (prevent_distortion st) a samples = Inr scaled" by simp
    with f2 o s Some show ?thesis by simp
  qed
qed

lemma get_sound_Inr:
  assumes "get_sound X st vel ns pid pmat pamp pmass sid smat samp smass res = Inr (out, st')"
  shows "modes_frame st st' \<and>
         (case out of None \<Rightarrow> True
          | Some scaled \<Rightarrow> (\<exists>a samples. scale_sound (prevent_distortion st) a samples = Inr scaled))"
proof -
  have p: "pamp \<noteq> 0"
  proof
    assume "pamp = 0"
    with assms show False by (simp add: get_sound_def)
  qed
  with assms obtain st2 info r st3 where
    e: "ensure_info st pid pmat pamp sid smat = Inr st2" and
    i: "get_info st2 sid pid = Inr info" and
    m: "(if info_count info = 0
         then first_impact X st2 (samp / pamp) (min pmass smass) (normal_speed_of vel ns) pid sid res
         else later_impact X st2 info (min pmass smass) (normal_speed_of vel ns) pid sid res)
        = Inr (r, st3)" and
    f: "(case r of (sound, modes_1, modes_2, a) \<Rightarrow>
           finish_sound st3 sound modes_1 modes_2 a pid pmat sid smat) = Inr (out, st')"
    by (auto simp: get_sound_def then_do_Inr_iff Let_def)
  obtain sound modes_1 modes_2 a where r: "r = (sound, modes_1, modes_2, a)"
    by (cases r) auto
  from f r have f': "finish_sound st3 sound modes_1 modes_2 a pid pmat sid smat = Inr (out, st')"
    by simp
  have f12: "modes_frame st st2" using e by (rule modes_frame_ensure_info)
  have f23: "modes_frame st2 st3"
  proof (cases "info_count info = 0")
    case True
    with m show ?thesis by (metis modes_frame_first_impact)
  next
    case False
    with m show ?thesis by (metis modes_frame_later_impact)
  qed
  from f12 f23 have f13: "modes_frame st st3" by (rule modes_frame_trans)
  from finish_sound_Inr[OF f'] have f34: "modes_frame st3 st'" and
    c: "(case out of None \<Rightarrow> sound = None
          | Some scaled \<Rightarrow> (\<exists>samples. sound = Some samples \<and>
                 scale_sound (prevent_distortion st3) a samples = Inr scaled))"
    by auto
  from f13 f34 have "modes_frame st st'" by (rule modes_frame_trans)
  moreover from c modes_frame_fields(1)[OF f13]
  have "(case out of None \<Rightarrow> True
          | Some scaled \<Rightarrow> (\<exists>a samples. scale_sound (prevent_distortion st) a samples = Inr scaled))"
    by (auto split: option.splits)
  ultimately show ?thesis by simp
qed

text \<open>
  C4. When \<^verbatim>\<open>prevent_distortion\<close> is set, every sample of a sound that \<^verbatim>\<open>get_sound\<close> returns has
  an absolute value of at most 0.99: the sound is the synthesised one divided by its peak
  absolute value and multiplied by an amp whose absolute value is at most 0.99, the amp
  being replaced by 0.99 when its absolute value exceeds 0.99. (Over the real numbers;
  the rounding of floating-point arithmetic is not modelled.)
\<close>

theorem impact_sound_peak:
  assumes "prevent_distortion st"
    and "get_sound X st vel ns pid pmat pamp pmass sid smat samp smass res = Inr (Some sound, st')"
  shows "(\<forall>v \<in> set sound. \<bar>v\<bar> \<le> 99 / 100) \<and>
         (\<exists>a samples. \<bar>a\<bar> \<le> 99 / 100 \<and> samples \<noteq> [] \<and>
            sound = map (\<lambda>v. a * v / Max (set (map abs samples))) samples)"
proof -
  from get_sound_Inr[OF assms(2)] assms(1) obtain a samples where
    "scale_sound True a samples = Inr sound" by auto
  from scale_sound_bound[OF this] show ?thesis by blast
qed

lemma demo_two_impacts:
  "\<exists>s1 st1 st2.
     get_sound demo_ext demo_engine (0, - 1, 0) [(0, 1, 0)]
        1 ''wood_medium_1'' (1 / 2) (6 / 100) (Some 2) ''wood_medium_1'' (1 / 20) 3 (45 / 100)
        = Inr (s1, st1) \<and>
     prevent_distortion st1 \<and>
     get_sound demo_ext st1 (0, - 20, 0) [(0, 1, 0)]
        1 ''wood_medium_1'' (1 / 2) (6 / 100) (Some 2) ''wood_medium_1'' (1 / 20) 3 (45 / 100)
        = Inr (Some [0, 99 / 200, - 99 / 100, 0, 0, 0, 0, 0, 0, 0, 0, 0], st2)"
  by (simp add: get_sound_def ensure_info_def set_info_def get_info_def
      get_object_modes_def sample_mode_def item_def np_random_normal_def demo_distribution_def
      eval_nat_numeral normal_speed_of_def norm3_def dot3_def div3_def clip_def mean_def
      subscript_def first_impact_def later_impact_def make_impact_audio_def
      new_CollisionAudioInfo_def
      log_divide synth_impact_modes_def demo_ext_def linspace_def
      finish_sound_def scale_sound_def np_max_def
      count_collisions_def demo_engine_def Let_def)

theorem impact_sound_peak_witness:
  "\<exists>s1 st1 sound st2.
     get_sound demo_ext demo_engine (0, - 1, 0) [(0, 1, 0)]
        1 ''wood_medium_1'' (1 / 2) (6 / 100) (Some 2) ''wood_medium_1'' (1 / 20) 3 (45 / 100)
        = Inr (s1, st1) \<and>
     prevent_distortion st1 \<and>
     get_sound demo_ext st1 (0, - 20, 0) [(0, 1, 0)]
        1 ''wood_medium_1'' (1 / 2) (6 / 100) (Some 2) ''wood_medium_1'' (1 / 20) 3 (45 / 100)
        = Inr (Some sound, st2) \<and>
     sound = [0, 99 / 200, - 99 / 100, 0, 0, 0, 0, 0, 0, 0, 0, 0] \<and>
     list_all (\<lambda>v. \<bar>v\<bar> \<le> 99 / 100) sound"
proof -
  from demo_two_impacts obtain s1 st1 st2 where
    a: "get_sound demo_ext demo_engine (0, - 1, 0) [(0, 1, 0)]
        1 ''wood_medium_1'' (1 / 2) (6 / 100) (Some 2) ''wood_medium_1'' (1 / 20) 3 (45 / 100)
        = Inr (s1, st1)" and
    p: "prevent_distortion st1" and
    b: "get_sound demo_ext st1 (0, - 20, 0) [(0, 1, 0)]
        1 ''wood_medium_1'' (1 / 2) (6 / 100) (Some 2) ''wood_medium_1'' (1 / 20) 3 (45 / 100)
        = Inr (Some [0, 99 / 200, - 99 / 100, 0, 0, 0, 0, 0, 0, 0, 0, 0], st2)"
    by (elim exE conjE)
  from impact_sound_peak[OF p b]
  have "list_all (\<lambda>v. \<bar>v\<bar> \<le> 99 / 100) [0, 99 / 200, - 99 / 100, 0, 0, 0, 0, 0, 0, 0, 0, 0 :: real]"
    unfolding list_all_iff by (rule conjunct1)
  with a p b show ?thesis
    by (intro exI[of _ s1] exI[of _ st1] exI[of _ st2]
        exI[of _ "[0, 99 / 200, - 99 / 100, 0, 0, 0, 0, 0, 0, 0, 0, 0]"] conjI refl)
qed

subsection \<open>The end of a scrape\<close>

lemma modes_frame_get_impulse_response:
  assumes "get_impulse_response X st vel ns pid pmat pamp pmass sid smat samp smass res
             = Inr (out, st')"
  shows "modes_frame st st'"
proof -
  from assms obtain u where
    "get_sound X st vel ns pid pmat pamp pmass sid smat samp smass res = Inr (u, st')"
    by (auto simp: get_impulse_response_def then_do_Inr_iff Let_def)
  from get_sound_Inr[OF this] show ?thesis by simp
qed

lemma norm3_nonneg: "0 \<le> norm3 v"
  by (cases v) (auto simp: norm3_def)

text \<open>
  C6. When the speed of a scrape gives \<^verbatim>\<open>num_pts == 1\<close>, that is, when
  \<open>\<lfloor>(min |velocity| 5 / 1000) / SCRAPE_M_PER_PIXEL\<rfloor> \<le> 1\<close>, a call of
  \<^verbatim>\<open>get_scrape_sound_command\<close> that raises no exception returns no command, draws no id,
  \<^verbatim>\<open>get_scrape_sound\<close> returns no sound, and the pair has no entry left in the summed
  masters, the event counts and the start velocities, so that the next scrape of the
  pair starts from an empty master and a count of zero.
\<close>

theorem one_pixel_scrape_ends:
  assumes "\<lfloor>min (norm3 vel) SCRAPE_MAX_VELOCITY / 1000 / SCRAPE_M_PER_PIXEL\<rfloor> \<le> 1"
    and "get_scrape_sound_command X st urandom vel cps ns pid pmat pamp pmass sid smat samp smass res
           = Inr (cmd, st', urandom')"
  shows "cmd = None \<and>
         get_scrape_sound X st vel ns pid pmat pamp pmass sid smat samp smass res = Inr (None, st') \<and>
         scrape_summed_masters st' (pid, sid) = None \<and>
         scrape_events_count st' (pid, sid) = None \<and>
         scrape_start_velocities st' (pid, sid) = None \<and>
         urandom' = urandom"
proof -
  define n where "n = \<lfloor>min (norm3 vel) SCRAPE_MAX_VELOCITY / 1000 / SCRAPE_M_PER_PIXEL\<rfloor>"
  have "0 \<le> min (norm3 vel) SCRAPE_MAX_VELOCITY / 1000 / SCRAPE_M_PER_PIXEL"
    using norm3_nonneg[of vel] by (simp add: SCRAPE_MAX_VELOCITY_def SCRAPE_M_PER_PIXEL_def)
  then have "0 \<le> n" unfolding n_def by simp
  moreover from assms(1) have "n \<le> 1" unfolding n_def .
  ultimately have "(if n = 0 then 1 else n) = 1" by auto
  then have one: "scrape_num_pts (min (norm3 vel) SCRAPE_MAX_VELOCITY) = 1"
    unfolding scrape_num_pts_def Let_def n_def .
  from assms(2) obtain sound st1 where
    g: "get_scrape_sound X st vel ns pid pmat pamp pmass sid smat samp smass res = Inr (sound, st1)"
    and c: "(case sound of None \<Rightarrow> Inr (None, st1, urandom)
             | Some b \<Rightarrow> then_do (play_command st1 urandom cps (snd_length b) (wav_str b) 0)
                          (\<lambda>(c, urandom1). Inr (Some c, st1, urandom1))) = Inr (cmd, st', urandom')"
    by (auto simp: get_scrape_sound_command_def then_do_Inr_iff)
  from g one obtain st3 where s1: "sound = None" and e: "st1 = end_scrape st3 (pid, sid)"
    by (auto simp: get_scrape_sound_def then_do_Inr_iff Let_def split: option.splits if_splits)
  from c s1 have cmd: "cmd = None" and st': "st' = st1" and u: "urandom' = urandom" by simp_all
  with g s1 e show ?thesis by (simp add: end_scrape_def)
qed


lemma sqrt_millionth: "sqrt (1 / 1000000) = 1 / 1000"
  by (rule real_sqrt_unique) (simp_all add: power2_eq_square)

lemma demo_slow: "min (norm3 (1 / 1000, 0, 0)) SCRAPE_MAX_VELOCITY = 1 / 1000"
  by (simp add: norm3_def SCRAPE_MAX_VELOCITY_def sqrt_millionth)

lemma demo_slow_pts:
  "\<lfloor>min (norm3 (1 / 1000, 0, 0)) SCRAPE_MAX_VELOCITY / 1000 / SCRAPE_M_PER_PIXEL\<rfloor> \<le> 1"
  unfolding demo_slow by (simp add: SCRAPE_M_PER_PIXEL_def)

lemma demo_slow_scrape:
  "\<exists>cmd st' u. get_scrape_sound_command demo_ext demo_scraping_engine urandom (1 / 1000, 0, 0)
       [(0, 0, 0)] [(0, 1, 0)] 1 ''wood_medium_1'' (1 / 2) (6 / 100)
       (Some 2) ''wood_medium_1'' (1 / 20) 3 (45 / 100) = Inr (cmd, st', u)"
  by (simp add: get_scrape_sound_command_def get_scrape_sound_def scrape_num_pts_def
      SCRAPE_M_PER_PIXEL_def get_impulse_response_def demo_scraping_engine_def
      get_sound_def ensure_info_def set_info_def get_info_def
      get_object_modes_def sample_mode_def item_def np_random_normal_def demo_distribution_def
      eval_nat_numeral normal_speed_of_def norm3_def dot3_def div3_def clip_def mean_def
      sqrt_millionth SCRAPE_MAX_VELOCITY_def
      subscript_def first_impact_def make_impact_audio_def new_CollisionAudioInfo_def
      log_divide synth_impact_modes_def demo_ext_def linspace_def
      finish_sound_def scale_sound_def np_max_def np_min_def
      count_collisions_def demo_engine_def Let_def)


theorem one_pixel_scrape_ends_witness:
  "\<lfloor>min (norm3 (1 / 1000, 0, 0)) SCRAPE_MAX_VELOCITY / 1000 / SCRAPE_M_PER_PIXEL\<rfloor> \<le> 1 \<and>
   scrape_events_count demo_scraping_engine (1, Some 2) = Some 3 \<and>
   (\<exists>st' u. get_scrape_sound_command demo_ext demo_scraping_engine [] (1 / 1000, 0, 0)
       [(0, 0, 0)] [(0, 1, 0)] 1 ''wood_medium_1'' (1 / 2) (6 / 100)
       (Some 2) ''wood_medium_1'' (1 / 20) 3 (45 / 100) = Inr (None, st', u) \<and>
     scrape_summed_masters st' (1, Some 2) = None \<and>
     scrape_events_count st' (1, Some 2) = None \<and>
     scrape_start_velocities st' (1, Some 2) = None)"
proof -
  from demo_slow_scrape[of "[]"] obtain cmd st' u where
    r: "get_scrape_sound_command demo_ext demo_scraping_engine [] (1 / 1000, 0, 0)
       [(0, 0, 0)] [(0, 1, 0)] 1 ''wood_medium_1'' (1 / 2) (6 / 100)
       (Some 2) ''wood_medium_1'' (1 / 20) 3 (45 / 100) = Inr (cmd, st', u)"
    by (elim exE)
  from one_pixel_scrape_ends[OF demo_slow_pts r]
  have c: "cmd = None" and
    d: "scrape_summed_masters st' (1, Some 2) = None"
       "scrape_events_count st' (1, Some 2) = None"
       "scrape_start_velocities st' (1, Some 2) = None"
    by simp_all
  have e: "scrape_events_count demo_scraping_engine (1, Some 2) = Some 3"
    by (simp add: demo_scraping_engine_def)
  from r c d have "\<exists>st' u. get_scrape_sound_command demo_ext demo_scraping_engine [] (1 / 1000, 0, 0)
       [(0, 0, 0)] [(0, 1, 0)] 1 ''wood_medium_1'' (1 / 2) (6 / 100)
       (Some 2) ''wood_medium_1'' (1 / 20) 3 (45 / 100) = Inr (None, st', u) \<and>
     scrape_summed_masters st' (1, Some 2) = None \<and>
     scrape_events_count st' (1, Some 2) = None \<and>
     scrape_start_velocities st' (1, Some 2) = None"
    by (intro exI[of _ st'] exI[of _ u]) simp
  with demo_slow_pts e show ?thesis by (intro conjI)
qed

end
